theory Spec2Isabelle
  imports Complex_Main "HOL-Library.Option_ord" "HOL-Library.Log_Nat" "HOL-Library.Multiset"
begin

section \<open>The IPTV panel backend (server.js) as a functional model\<close>

text \<open>
  The server is a set of Express route handlers over one SQLite database. Each handler
  is modelled as a function from the database state to the new state and the outcome of
  the request. What the program gets from outside is a parameter: the clock, the bcrypt
  hash, the JWT verification and, for every storage call, whether the storage layer
  reports an error to the callback.

  Columns carry the types the schema declares: INTEGER is \<open>int\<close>, REAL is the
  rational number the stored binary64 value denotes (arithmetic on REAL rounds, see
  \<open>binary64\<close>), TEXT is \<open>string\<close>, and a column without NOT NULL is an \<open>option\<close> with \<open>None\<close>
  for NULL. A DATETIME is the instant it denotes, in milliseconds since the Unix epoch.
  A field of a JSON request body is an \<open>option\<close> with \<open>None\<close> for a field that is
  missing (\<open>undefined\<close> is bound as NULL by the database driver). The route parameter
  \<open>:id\<close> is the integer the INTEGER column compares it as; a parameter that is not a
  number matches no row, like an id that no row has.
\<close>

subsection \<open>Outcomes of a request\<close>

text \<open>
  The exceptions that can escape: a TypeError from reading a property of \<open>undefined\<close>,
  a RangeError from formatting an invalid date, and the error event the database driver
  emits for a failed statement that was given no callback.
\<close>

datatype js_error = TypeError | RangeError | SqliteError

datatype jwt_error = JsonWebTokenError | TokenExpiredError | NotBeforeError

record claims =
  jwt_id :: int
  jwt_username :: string
  jwt_type :: "string option"

text \<open>The request body: every field one of the modelled routes destructures.\<close>

record body =
  b_name :: "string option"
  b_channels :: "int option"
  b_duration :: "int option"
  b_price :: "rat option"
  b_status :: "string option"
  b_username :: "string option"
  b_password :: "string option"
  b_package_id :: "int option"
  b_device :: "string option"
  b_url :: "string option"
  b_logo :: "string option"
  b_category :: "string option"

record request =
  req_headers :: "string \<rightharpoonup> string"
  req_params_id :: int
  req_body :: body
  req_user :: "claims option"

subsection \<open>Tables\<close>

record admin =
  a_id :: int
  a_username :: string
  a_password :: string
  a_email :: "string option"
  a_created_at :: int

record package =
  p_id :: int
  p_name :: string
  p_channels :: int
  p_duration :: int
  p_price :: rat
  p_status :: "string option"
  p_created_at :: int

record subscriber =
  u_id :: int
  u_username :: string
  u_password :: string
  u_package_id :: "int option"
  u_device :: "string option"
  u_status :: "string option"
  u_expiry_date :: "int option"
  u_last_seen :: "int option"
  u_created_at :: int

record channel =
  ch_id :: int
  ch_name :: string
  ch_url :: string
  ch_logo :: "string option"
  ch_category :: "string option"
  ch_package_id :: "int option"
  ch_created_at :: int

record transaction_row =
  t_id :: int
  t_user_id :: "int option"
  t_package_id :: "int option"
  t_amount :: "rat option"
  t_status :: "string option"
  t_created_at :: int

text \<open>
  The database file: the five tables in rowid order, and for each table written by the
  program the AUTOINCREMENT counter (the largest rowid ever handed out).
\<close>

record database =
  admins :: "admin list"
  packages :: "package list"
  users :: "subscriber list"
  channels :: "channel list"
  transactions :: "transaction_row list"
  seq_admins :: int
  seq_packages :: int
  seq_users :: int
  seq_channels :: int

subsection \<open>Responses\<close>

record stats =
  totalRevenue :: rat
  todayRevenue :: rat
  activeUsers :: int
  newUsersThisWeek :: int
  totalChannels :: int
  totalPackages :: int

record activity_row =
  act_id :: int
  act_username :: string
  act_device :: "string option"
  act_status :: "string option"
  act_lastSeen :: "string option"

record package_list_row =
  pl_package :: package
  pl_subscribers :: int

record user_list_row =
  ul_user :: subscriber
  ul_package_name :: "string option"

datatype json =
    JError string
  | JMessage string
  | JStats stats
  | JActivity "activity_row list"
  | JPackages "package_list_row list"
  | JPackage package
  | JCreatedPackage int "string option" "int option" "int option" "rat option" string
  | JUsers "user_list_row list"
  | JCreatedUser int "string option" "int option" "string option" string
  | JChannels "channel list"
  | JCreatedChannel int "string option" "string option" "string option" "string option" "int option"

text \<open>
  A handler either answers with a status and a JSON body, or an exception escapes from a
  callback: then no response is written for the request.
\<close>

datatype outcome = Response nat json | Uncaught js_error

subsection \<open>The authentication middleware\<close>

text \<open>\<open>s.split(' ')\<close>: the pieces between single spaces, empty pieces kept.\<close>

fun split_space :: "string \<Rightarrow> string list" where
  "split_space [] = [[]]"
| "split_space (c # cs) =
     (if c = CHR '' '' then [] # split_space cs
      else (case split_space cs of
              [] \<Rightarrow> [[c]]
            | w # ws \<Rightarrow> (c # w) # ws))"

text \<open>\<open>xs[i]\<close> of a JavaScript array: \<open>undefined\<close> out of range.\<close>

definition js_index :: "'a list \<Rightarrow> nat \<Rightarrow> 'a option" where
  "js_index xs i = (if i < length xs then Some (xs ! i) else None)"

text \<open>
  \<open>authHeader && authHeader.split(' ')[1]\<close>: a missing or empty header is the result
  itself, which is falsy.
\<close>

definition bearer_token :: "string option \<Rightarrow> string option" where
  "bearer_token authHeader =
     (case authHeader of
        None \<Rightarrow> None
      | Some h \<Rightarrow> if h = [] then Some [] else js_index (split_space h) 1)"

datatype auth_step = Responded outcome | Next request

text \<open>\<open>!token\<close> holds of \<open>undefined\<close> and of the empty string.\<close>

definition authenticateToken ::
  "(string \<Rightarrow> jwt_error + claims) \<Rightarrow> request \<Rightarrow> auth_step" where
  "authenticateToken jwt_verify req =
     (case bearer_token (req_headers req ''authorization'') of
        None \<Rightarrow> Responded (Response 401 (JError ''Access token required''))
      | Some token \<Rightarrow>
          if token = [] then Responded (Response 401 (JError ''Access token required''))
          else (case jwt_verify token of
                  Inl err \<Rightarrow> Responded (Response 403 (JError ''Invalid or expired token''))
                | Inr user \<Rightarrow> Next (req\<lparr>req_user := Some user\<rparr>)))"

subsection \<open>What a request gets from outside\<close>

text \<open>
  \<open>now\<close> is the clock (\<open>Date.now()\<close> and SQLite's \<open>'now'\<close>, read as one instant per
  request), \<open>bcrypt_hash\<close> the salted hash the library returns for a password, and
  \<open>fails k\<close> says whether the \<open>k\<close>-th storage call of the request (counted from 0)
  hands an error to its callback. Statements issued outside \<open>db.serialize\<close> run in an
  order the driver chooses: \<open>pick k\<close> says which of the statements still pending runs as
  the \<open>k\<close>-th (an index into the pending ones, taken modulo their number).
\<close>

record env =
  now :: int
  bcrypt_hash :: "string \<Rightarrow> string"
  fails :: "nat \<Rightarrow> bool"
  pick :: "nat \<Rightarrow> nat"

subsection \<open>SQL and JavaScript primitives\<close>

text \<open>\<open>datetime('now')\<close> and CURRENT_TIMESTAMP: the instant, to the second.\<close>

definition datetime_now :: "int \<Rightarrow> int" where
  "datetime_now t = t - t mod 1000"

text \<open>
  REAL arithmetic. \<open>binary64 x\<close> is the IEEE 754 double nearest to \<open>x\<close>, ties to the
  even mantissa: \<open>exponent x\<close> is the power of two at or below \<open>\<bar>x\<bar>\<close>, \<open>ulp x\<close> the
  spacing of the doubles there (53 bits of mantissa; below \<open>2 powi - 1022\<close> the
  subnormal spacing), and \<open>x\<close> is rounded to a whole number of them. Infinities are not
  modelled: no magnitude here reaches \<open>2 powi 1024\<close>.
\<close>

definition round_even :: "rat \<Rightarrow> int" where
  "round_even y =
     (let f = \<lfloor>y\<rfloor>; r = y - of_int f in
      if r < 1 / 2 then f else if 1 / 2 < r then f + 1 else if even f then f else f + 1)"

definition exponent :: "rat \<Rightarrow> int" where
  "exponent x =
     (let c = bitlen (fst (quotient_of \<bar>x\<bar>)) - bitlen (snd (quotient_of \<bar>x\<bar>)) in
      if power_int 2 c \<le> \<bar>x\<bar> then c else c - 1)"

definition ulp :: "rat \<Rightarrow> rat" where
  "ulp x = power_int 2 (max (exponent x) (- 1022) - 52)"

definition binary64 :: "rat \<Rightarrow> rat" where
  "binary64 x = (if x = 0 then 0 else of_int (round_even (x / ulp x)) * ulp x)"

text \<open>Half the spacing of the subnormal doubles.\<close>

definition tiny :: rat where
  "tiny = power_int 2 (- 1075)"

text \<open>
  \<open>julianday(t)\<close>: SQLite keeps a date as the whole milliseconds \<open>iJD\<close> since noon of
  24 November 4714 BC (the Unix epoch is \<open>iJD = 210866760000000\<close>), accepts the years
  0000 to 9999, and returns the double \<open>iJD / 86400000.0\<close>; NULL for any other date.
\<close>

definition valid_date :: "int \<Rightarrow> bool" where
  "valid_date t \<longleftrightarrow> 0 \<le> t + 210866760000000 \<and> t + 210866760000000 \<le> 464269060799999"

definition julianday :: "int \<Rightarrow> rat option" where
  "julianday t =
     (if valid_date t then Some (binary64 (of_int (t + 210866760000000) / 86400000))
      else None)"

text \<open>\<open>date(t)\<close>: the calendar day of an instant, as the number of the day.\<close>

definition sql_date :: "int \<Rightarrow> int" where
  "sql_date t = t div 86400000"

text \<open>\<open>CAST(x AS INTEGER)\<close> of a REAL: the fraction is dropped (towards zero).\<close>

definition cast_integer :: "rat \<Rightarrow> int" where
  "cast_integer x = (if 0 \<le> x then \<lfloor>x\<rfloor> else \<lceil>x\<rceil>)"

text \<open>An integer as TEXT, as \<open>||\<close> converts it: decimal digits, with a sign if negative.\<close>

definition digit_char :: "nat \<Rightarrow> char" where
  "digit_char d = ''0123456789'' ! d"

function text_of_nat :: "nat \<Rightarrow> string" where
  "text_of_nat n =
     (if n < 10 then [digit_char n] else text_of_nat (n div 10) @ [digit_char (n mod 10)])"
  by pat_completeness auto
termination
  by (relation "measure (\<lambda>n. n)") auto

declare text_of_nat.simps [simp del]

definition text_of_int :: "int \<Rightarrow> string" where
  "text_of_int i = (if i < 0 then CHR ''-'' # text_of_nat (nat (- i)) else text_of_nat (nat i))"

text \<open>\<open>SELECT COUNT(*) ... WHERE P\<close>: one scan of the table.\<close>

definition sql_count :: "('a \<Rightarrow> bool) \<Rightarrow> 'a list \<Rightarrow> int" where
  "sql_count P rows = foldl (\<lambda>n r. if P r then n + 1 else n) 0 rows"

text \<open>
  \<open>SUM\<close> of a REAL column: NULL values are skipped, the sum of no value is NULL, and
  the values are added in table order, each addition rounded.
\<close>

definition sql_sum :: "rat option list \<Rightarrow> rat option" where
  "sql_sum vs =
     foldl (\<lambda>acc v. case v of
                       None \<Rightarrow> acc
                     | Some x \<Rightarrow> (case acc of
                                   None \<Rightarrow> Some (binary64 x)
                                 | Some a \<Rightarrow> Some (binary64 (a + binary64 x))))
           None vs"

text \<open>
  \<open>ORDER BY key DESC\<close>: NULL is below every value, so it comes last. Rows with equal
  keys keep their table order (SQL leaves their order open).
\<close>

fun insort_desc :: "('a \<Rightarrow> 'k::linorder) \<Rightarrow> 'a \<Rightarrow> 'a list \<Rightarrow> 'a list" where
  "insort_desc key x [] = [x]"
| "insort_desc key x (y # ys) =
     (if key x < key y then y # insort_desc key x ys else x # y # ys)"

definition order_by_desc :: "('a \<Rightarrow> 'k::linorder) \<Rightarrow> 'a list \<Rightarrow> 'a list" where
  "order_by_desc key rows = foldr (insort_desc key) rows []"

text \<open>
  The order in which statements issued in parallel mode run: at step \<open>k\<close> the driver
  takes one of the pending statements, the one \<open>pick k\<close> names.
\<close>

function run_order :: "(nat \<Rightarrow> nat) \<Rightarrow> nat \<Rightarrow> 'a list \<Rightarrow> 'a list" where
  "run_order pk k pending =
     (if pending = [] then []
      else pending ! (pk k mod length pending)
           # run_order pk (Suc k)
               (take (pk k mod length pending) pending
                @ drop (Suc (pk k mod length pending)) pending))"
  by pat_completeness auto
termination
proof (relation "measure (\<lambda>(pk, k, pending). length pending)")
  show "wf (measure (\<lambda>(pk :: nat \<Rightarrow> nat, k :: nat, pending :: 'a list). length pending))"
    by simp
next
  fix pk :: "nat \<Rightarrow> nat" and k :: nat and pending :: "'a list"
  assume "pending \<noteq> []"
  then have "pk k mod length pending < length pending"
    by simp
  then show "((pk, Suc k,
        take (pk k mod length pending) pending @ drop (Suc (pk k mod length pending)) pending),
      pk, k, pending) \<in> measure (\<lambda>(pk, k, pending). length pending)"
    by simp
qed

declare run_order.simps [simp del]

text \<open>\<open>x || d\<close> on numbers: \<open>d\<close> when \<open>x\<close> is 0, and also when it is NULL.\<close>

definition js_or :: "int \<Rightarrow> int \<Rightarrow> int" where
  "js_or x d = (if x = 0 then d else x)"

definition js_or_null :: "'a::zero option \<Rightarrow> 'a \<Rightarrow> 'a" where
  "js_or_null x d = (case x of None \<Rightarrow> d | Some v \<Rightarrow> if v = 0 then d else v)"

text \<open>
  \<open>new Date(t).toISOString()\<close>: a RangeError beyond 100,000,000 days from the epoch.
  The string is kept as the instant it denotes.
\<close>

definition toISOString :: "int \<Rightarrow> js_error + int" where
  "toISOString t = (if \<bar>t\<bar> \<le> 8640000000000000 then Inr t else Inl RangeError)"

text \<open>The next rowid of an AUTOINCREMENT table.\<close>

definition next_rowid :: "int \<Rightarrow> int list \<Rightarrow> int" where
  "next_rowid seq ids = foldl max seq ids + 1"

definition db_error :: outcome where
  "db_error = Response 500 (JError ''Database error'')"

subsection \<open>Row insertion\<close>

definition insert_admin :: "int \<Rightarrow> string \<Rightarrow> string \<Rightarrow> string option \<Rightarrow> database \<Rightarrow> database" where
  "insert_admin t username password email db =
     (let i = next_rowid (seq_admins db) (map a_id (admins db)) in
      db\<lparr>admins := admins db @
            [\<lparr>a_id = i, a_username = username, a_password = password, a_email = email,
              a_created_at = datetime_now t\<rparr>],
         seq_admins := i\<rparr>)"

text \<open>\<open>status\<close> is not in the column list: it takes the default \<open>'active'\<close>.\<close>

definition insert_package :: "int \<Rightarrow> string \<Rightarrow> int \<Rightarrow> int \<Rightarrow> rat \<Rightarrow> database \<Rightarrow> database" where
  "insert_package t name chans duration price db =
     (let i = next_rowid (seq_packages db) (map p_id (packages db)) in
      db\<lparr>packages := packages db @
            [\<lparr>p_id = i, p_name = name, p_channels = chans, p_duration = duration,
              p_price = price, p_status = Some ''active'', p_created_at = datetime_now t\<rparr>],
         seq_packages := i\<rparr>)"

definition insert_user ::
  "int \<Rightarrow> string \<Rightarrow> string \<Rightarrow> int option \<Rightarrow> string option \<Rightarrow> string option \<Rightarrow> int option \<Rightarrow>
   int option \<Rightarrow> database \<Rightarrow> database" where
  "insert_user t username password package_id device status expiry_date last_seen db =
     (let i = next_rowid (seq_users db) (map u_id (users db)) in
      db\<lparr>users := users db @
            [\<lparr>u_id = i, u_username = username, u_password = password,
              u_package_id = package_id, u_device = device, u_status = status,
              u_expiry_date = expiry_date, u_last_seen = last_seen,
              u_created_at = datetime_now t\<rparr>],
         seq_users := i\<rparr>)"

definition insert_channel ::
  "int \<Rightarrow> string \<Rightarrow> string \<Rightarrow> string option \<Rightarrow> string option \<Rightarrow> int option \<Rightarrow> database \<Rightarrow>
   database" where
  "insert_channel t name url logo category package_id db =
     (let i = next_rowid (seq_channels db) (map ch_id (channels db)) in
      db\<lparr>channels := channels db @
            [\<lparr>ch_id = i, ch_name = name, ch_url = url, ch_logo = logo,
              ch_category = category, ch_package_id = package_id,
              ch_created_at = datetime_now t\<rparr>],
         seq_channels := i\<rparr>)"

subsection \<open>initDatabase\<close>

text \<open>
  The tables always exist in the model, so the five \<open>CREATE TABLE IF NOT EXISTS\<close> change
  nothing. The seed inserts are written without a callback.
\<close>

definition samplePackages :: "(string \<times> int \<times> int \<times> rat) list" where
  "samplePackages =
     [(''Basic Plan'', 150, 30, 15),
      (''Premium Plan'', 300, 30, 30),
      (''VIP Plan'', 500, 30, 50)]"

definition sampleUsers :: "(string \<times> int \<times> string \<times> string) list" where
  "sampleUsers =
     [(''user001'', 1, ''Android'', ''active''),
      (''user002'', 2, ''iOS'', ''active''),
      (''user003'', 3, ''Smart TV'', ''active''),
      (''user004'', 1, ''Android'', ''expired'')]"

text \<open>
  The sample inserts are issued from the callbacks of the lookups, after \<open>db.serialize\<close>
  has returned: they run in the order the driver picks, and take their rowids in that
  order. The expiry dates are computed in list order while the statements are issued.
\<close>

definition seed_packages :: "(nat \<Rightarrow> nat) \<Rightarrow> int \<Rightarrow> database \<Rightarrow> database" where
  "seed_packages pk t db =
     foldl (\<lambda>d (name, chans, duration, price). insert_package t name chans duration price d)
           db (run_order pk 0 samplePackages)"

fun prepare_users ::
  "int \<Rightarrow> (string \<times> int \<times> string \<times> string) list \<Rightarrow>
   js_error + ((string \<times> int \<times> string \<times> string) \<times> int) list" where
  "prepare_users t [] = Inr []"
| "prepare_users t ((username, package_id, device, status) # rest) =
     (case toISOString (if status = ''active'' then t + 30 * 24 * 60 * 60 * 1000
                        else t - 2 * 24 * 60 * 60 * 1000) of
        Inl e \<Rightarrow> Inl e
      | Inr expiryDate \<Rightarrow>
          (case prepare_users t rest of
             Inl e \<Rightarrow> Inl e
           | Inr rows \<Rightarrow> Inr (((username, package_id, device, status), expiryDate) # rows)))"

definition seed_users ::
  "(nat \<Rightarrow> nat) \<Rightarrow> int \<Rightarrow> string \<Rightarrow> database \<Rightarrow> js_error + database" where
  "seed_users pk t hash db =
     (case prepare_users t sampleUsers of
        Inl e \<Rightarrow> Inl e
      | Inr rows \<Rightarrow>
          Inr (foldl (\<lambda>d ((username, package_id, device, status), expiryDate).
                        insert_user t username hash (Some package_id) (Some device)
                          (Some status) (Some expiryDate) (Some (datetime_now t)) d)
                     db (run_order pk 3 rows)))"

text \<open>
  The three lookups are storage calls 0, 1 and 2. The first callback reads only \<open>!row\<close>;
  the other two read \<open>row.count\<close>, which throws when the lookup failed. The admin insert
  waits for the hash, so it runs after the lookups.
\<close>

definition initDatabase :: "env \<Rightarrow> database \<Rightarrow> js_error + database" where
  "initDatabase env db =
     (let row = (if fails env 0 then None
                 else find (\<lambda>a. a_username a = ''admin'') (admins db)) in
      if fails env 1 then Inl TypeError
      else
        let db1 = (if sql_count (\<lambda>_. True) (packages db) = 0
                   then seed_packages (pick env) (now env) db else db) in
        if fails env 2 then Inl TypeError
        else if row = None \<and> ''admin'' \<in> set (map a_username (admins db)) then Inl SqliteError
        else
          let db2 = (if row = None
                     then insert_admin (now env) ''admin'' (bcrypt_hash env ''admin123'')
                            (Some ''admin@iptv.com'') db1
                     else db1) in
          if sql_count (\<lambda>_. True) (users db) = 0
          then seed_users (pick env) (now env) (bcrypt_hash env ''user123'') db2
          else Inr db2)"

subsection \<open>Dashboard routes\<close>

text \<open>
  GET /api/dashboard/stats: six nested lookups, storage calls 0 to 5. No callback looks
  at \<open>err\<close>; each reads a property of \<open>row\<close>.
\<close>

definition completed :: "transaction_row \<Rightarrow> bool" where
  "completed t \<longleftrightarrow> t_status t = Some ''completed''"

definition get_dashboard_stats :: "env \<Rightarrow> database \<Rightarrow> database \<times> outcome" where
  "get_dashboard_stats env db =
     (if fails env 0 then (db, Uncaught TypeError)
      else
        let total = js_or_null (sql_sum (map t_amount (filter completed (transactions db)))) 0 in
        if fails env 1 then (db, Uncaught TypeError)
        else
          let today = js_or_null
                (sql_sum (map t_amount
                   (filter (\<lambda>t. completed t \<and> sql_date (t_created_at t) = sql_date (now env))
                      (transactions db)))) 0 in
          if fails env 2 then (db, Uncaught TypeError)
          else
            let active = js_or (sql_count (\<lambda>u. u_status u = Some ''active'') (users db)) 0 in
            if fails env 3 then (db, Uncaught TypeError)
            else
              let new = js_or (sql_count
                    (\<lambda>u. sql_date (now env) - 7 \<le> sql_date (u_created_at u)) (users db)) 0 in
              if fails env 4 then (db, Uncaught TypeError)
              else
                let chans = js_or (sql_count (\<lambda>_. True) (channels db)) 0 in
                if fails env 5 then (db, Uncaught TypeError)
                else
                  let pkgs = js_or (sql_count (\<lambda>_. True) (packages db)) 0 in
                  (db, Response 200 (JStats
                     \<lparr>totalRevenue = total, todayRevenue = today, activeUsers = active,
                      newUsersThisWeek = new, totalChannels = chans,
                      totalPackages = pkgs\<rparr>)))"

text \<open>
  GET /api/dashboard/activity. The CASE expression: the difference of the two Julian day
  numbers and its products with 24 and 60 are REAL, each operation rounded. A NULL
  \<open>last_seen\<close> makes every comparison NULL, so the ELSE branch is taken, and there
  \<open>NULL || ' days ago'\<close> is NULL.
\<close>

definition lastSeen :: "int \<Rightarrow> int option \<Rightarrow> string option" where
  "lastSeen t last_seen =
     (case last_seen of
        None \<Rightarrow> None
      | Some l \<Rightarrow>
          (case (julianday t, julianday l) of
             (Some jn, Some jl) \<Rightarrow>
               if binary64 (binary64 (binary64 (jn - jl) * 24) * 60) < 60
               then Some (text_of_int
                            (cast_integer (binary64 (binary64 (binary64 (jn - jl) * 24) * 60)))
                          @ '' min ago'')
               else if binary64 (binary64 (jn - jl) * 24) < 24
               then Some (text_of_int (cast_integer (binary64 (binary64 (jn - jl) * 24)))
                          @ '' hours ago'')
               else Some (text_of_int (cast_integer (binary64 (jn - jl))) @ '' days ago'')
           | _ \<Rightarrow> None))"

definition activity_select :: "int \<Rightarrow> subscriber \<Rightarrow> activity_row" where
  "activity_select t u =
     \<lparr>act_id = u_id u, act_username = u_username u, act_device = u_device u,
      act_status = u_status u, act_lastSeen = lastSeen t (u_last_seen u)\<rparr>"

definition get_dashboard_activity :: "env \<Rightarrow> database \<Rightarrow> database \<times> outcome" where
  "get_dashboard_activity env db =
     (if fails env 0 then (db, db_error)
      else (db, Response 200 (JActivity
              (map (activity_select (now env))
                 (take 10 (order_by_desc u_last_seen (users db)))))))"

subsection \<open>Packages routes\<close>

text \<open>
  GET /api/packages. The correlated subquery counts, for the package of the outer row,
  the users rows with that \<open>package_id\<close> and status \<open>'active'\<close>; a NULL in either
  column makes the condition NULL, and the row is not counted.
\<close>

definition subscribers :: "database \<Rightarrow> package \<Rightarrow> int" where
  "subscribers db p =
     sql_count (\<lambda>u. u_package_id u = Some (p_id p) \<and> u_status u = Some ''active'') (users db)"

definition get_packages :: "env \<Rightarrow> database \<Rightarrow> database \<times> outcome" where
  "get_packages env db =
     (if fails env 0 then (db, db_error)
      else (db, Response 200 (JPackages
              (map (\<lambda>p. \<lparr>pl_package = p, pl_subscribers = subscribers db p\<rparr>) (packages db)))))"

definition get_packages_id :: "env \<Rightarrow> int \<Rightarrow> database \<Rightarrow> database \<times> outcome" where
  "get_packages_id env i db =
     (if fails env 0 then (db, db_error)
      else (case find (\<lambda>p. p_id p = i) (packages db) of
              None \<Rightarrow> (db, Response 404 (JError ''Package not found''))
            | Some row \<Rightarrow> (db, Response 200 (JPackage row))))"

text \<open>A NULL in a NOT NULL column is a constraint error of the statement.\<close>

definition post_packages :: "env \<Rightarrow> body \<Rightarrow> database \<Rightarrow> database \<times> outcome" where
  "post_packages env b db =
     (if fails env 0 then (db, db_error)
      else (case (b_name b, b_channels b, b_duration b, b_price b) of
              (Some name, Some chans, Some duration, Some price) \<Rightarrow>
                (let db' = insert_package (now env) name chans duration price db in
                 (db', Response 200
                    (JCreatedPackage (seq_packages db') (b_name b) (b_channels b) (b_duration b)
                       (b_price b) ''active'')))
            | _ \<Rightarrow> (db, db_error)))"

text \<open>
  PUT /api/packages/:id. \<open>this.changes\<close> is the number of rows the WHERE clause matched;
  the constraint is checked on a row that is written, so a statement matching no row
  does not fail.
\<close>

definition put_packages_id :: "env \<Rightarrow> int \<Rightarrow> body \<Rightarrow> database \<Rightarrow> database \<times> outcome" where
  "put_packages_id env i b db =
     (let changes = sql_count (\<lambda>p. p_id p = i) (packages db) in
      if fails env 0 then (db, db_error)
      else (case (b_name b, b_channels b, b_duration b, b_price b) of
              (Some name, Some chans, Some duration, Some price) \<Rightarrow>
                if changes = 0 then (db, Response 404 (JError ''Package not found''))
                else (db\<lparr>packages :=
                           map (\<lambda>p. if p_id p = i
                                     then p\<lparr>p_name := name, p_channels := chans,
                                            p_duration := duration, p_price := price,
                                            p_status := b_status b\<rparr>
                                     else p) (packages db)\<rparr>,
                      Response 200 (JMessage ''Package updated successfully''))
            | _ \<Rightarrow>
                if changes = 0 then (db, Response 404 (JError ''Package not found''))
                else (db, db_error)))"

text \<open>DELETE /api/packages/:id. Foreign keys are not enforced: no row depends on it.\<close>

definition delete_packages_id :: "env \<Rightarrow> int \<Rightarrow> database \<Rightarrow> database \<times> outcome" where
  "delete_packages_id env i db =
     (let changes = sql_count (\<lambda>p. p_id p = i) (packages db) in
      if fails env 0 then (db, db_error)
      else if changes = 0 then (db, Response 404 (JError ''Package not found''))
      else (db\<lparr>packages := filter (\<lambda>p. p_id p \<noteq> i) (packages db)\<rparr>,
            Response 200 (JMessage ''Package deleted successfully'')))"

subsection \<open>Users routes\<close>

text \<open>
  GET /api/users: every users row with the name of its package, or NULL when no package
  has that id, newest first.
\<close>

definition left_join_packages :: "database \<Rightarrow> subscriber \<Rightarrow> user_list_row list" where
  "left_join_packages db u =
     (case filter (\<lambda>p. u_package_id u = Some (p_id p)) (packages db) of
        [] \<Rightarrow> [\<lparr>ul_user = u, ul_package_name = None\<rparr>]
      | ps \<Rightarrow> map (\<lambda>p. \<lparr>ul_user = u, ul_package_name = Some (p_name p)\<rparr>) ps)"

definition get_users :: "env \<Rightarrow> database \<Rightarrow> database \<times> outcome" where
  "get_users env db =
     (if fails env 0 then (db, db_error)
      else (db, Response 200 (JUsers
              (order_by_desc (\<lambda>r. u_created_at (ul_user r))
                 (concat (map (left_join_packages db) (users db)))))))"

text \<open>
  POST /api/users. Hashing a missing password rejects, which the \<open>try\<close> catches. The
  package lookup is storage call 0 and the insert storage call 1; the lookup's callback
  runs after the \<open>try\<close> block has been left, and reads \<open>pkg.duration\<close> whatever the
  lookup gave. \<open>WHERE id = NULL\<close> matches no row.
\<close>

definition select_package :: "int option \<Rightarrow> database \<Rightarrow> package option" where
  "select_package package_id db =
     (case package_id of
        None \<Rightarrow> None
      | Some i \<Rightarrow> find (\<lambda>p. p_id p = i) (packages db))"

definition post_users :: "env \<Rightarrow> body \<Rightarrow> database \<Rightarrow> database \<times> outcome" where
  "post_users env b db =
     (case b_password b of
        None \<Rightarrow> (db, Response 500 (JError ''Server error''))
      | Some password \<Rightarrow>
          (let hashedPassword = bcrypt_hash env password;
               pkg = (if fails env 0 then None else select_package (b_package_id b) db)
           in case pkg of
                None \<Rightarrow> (db, Uncaught TypeError)
              | Some p \<Rightarrow>
                  (case toISOString (now env + js_or (p_duration p) 30 * 24 * 60 * 60 * 1000) of
                     Inl e \<Rightarrow> (db, Uncaught e)
                   | Inr expiryDate \<Rightarrow>
                       if fails env 1 then (db, db_error)
                       else (case b_username b of
                               None \<Rightarrow> (db, db_error)
                             | Some username \<Rightarrow>
                                 if username \<in> set (map u_username (users db))
                                 then (db, db_error)
                                 else
                                   (let db' = insert_user (now env) username hashedPassword
                                                (b_package_id b) (b_device b) (Some ''active'')
                                                (Some expiryDate) None db
                                    in (db', Response 200
                                          (JCreatedUser (seq_users db') (b_username b)
                                             (b_package_id b) (b_device b) ''active'')))))))"

text \<open>PUT /api/users/:id and DELETE /api/users/:id: \<open>this.changes\<close> is not read.\<close>

definition put_users_id :: "env \<Rightarrow> int \<Rightarrow> body \<Rightarrow> database \<Rightarrow> database \<times> outcome" where
  "put_users_id env i b db =
     (if fails env 0 then (db, db_error)
      else (db\<lparr>users :=
                 map (\<lambda>u. if u_id u = i
                           then u\<lparr>u_package_id := b_package_id b, u_status := b_status b,
                                  u_device := b_device b\<rparr>
                           else u) (users db)\<rparr>,
            Response 200 (JMessage ''User updated successfully'')))"

definition delete_users_id :: "env \<Rightarrow> int \<Rightarrow> database \<Rightarrow> database \<times> outcome" where
  "delete_users_id env i db =
     (if fails env 0 then (db, db_error)
      else (db\<lparr>users := filter (\<lambda>u. u_id u \<noteq> i) (users db)\<rparr>,
            Response 200 (JMessage ''User deleted successfully'')))"

subsection \<open>Channels routes\<close>

definition get_channels_packageId :: "env \<Rightarrow> int \<Rightarrow> database \<Rightarrow> database \<times> outcome" where
  "get_channels_packageId env packageId db =
     (if fails env 0 then (db, db_error)
      else (db, Response 200 (JChannels
              (filter (\<lambda>c. ch_package_id c = Some packageId) (channels db)))))"

definition post_channels :: "env \<Rightarrow> body \<Rightarrow> database \<Rightarrow> database \<times> outcome" where
  "post_channels env b db =
     (if fails env 0 then (db, db_error)
      else (case (b_name b, b_url b) of
              (Some name, Some url) \<Rightarrow>
                (let db' = insert_channel (now env) name url (b_logo b) (b_category b)
                             (b_package_id b) db in
                 (db', Response 200
                    (JCreatedChannel (seq_channels db') (b_name b) (b_url b) (b_logo b)
                       (b_category b) (b_package_id b))))
            | _ \<Rightarrow> (db, db_error)))"

definition delete_channels_id :: "env \<Rightarrow> int \<Rightarrow> database \<Rightarrow> database \<times> outcome" where
  "delete_channels_id env i db =
     (if fails env 0 then (db, db_error)
      else (db\<lparr>channels := filter (\<lambda>c. ch_id c \<noteq> i) (channels db)\<rparr>,
            Response 200 (JMessage ''Channel deleted successfully'')))"

subsection \<open>Routing\<close>

text \<open>A protected route runs its handler when the middleware calls \<open>next\<close>.\<close>

definition protected ::
  "(string \<Rightarrow> jwt_error + claims) \<Rightarrow> (request \<Rightarrow> database \<Rightarrow> database \<times> outcome) \<Rightarrow>
   request \<Rightarrow> database \<Rightarrow> database \<times> outcome" where
  "protected jwt_verify handler req db =
     (case authenticateToken jwt_verify req of
        Responded out \<Rightarrow> (db, out)
      | Next req' \<Rightarrow> handler req' db)"

subsection \<open>The token of a request, in words\<close>

text \<open>
  The second of the words of the Authorization header that single spaces separate: what
  stands between the first space and the next one (or the end); none when the header has
  no space.
\<close>

definition second_word :: "string \<Rightarrow> string option" where
  "second_word h =
     (if CHR '' '' \<in> set h
      then Some (takeWhile (\<lambda>c. c \<noteq> CHR '' '') (tl (dropWhile (\<lambda>c. c \<noteq> CHR '' '') h)))
      else None)"

subsection \<open>The relative time of the activity list, as specified\<close>

text \<open>
  The whole units in an elapsed time, the fraction dropped (towards zero), and the three
  buckets in the words of the specification, over the elapsed milliseconds.
\<close>

definition whole_units :: "int \<Rightarrow> int \<Rightarrow> int" where
  "whole_units elapsed unit =
     (if 0 \<le> elapsed then elapsed div unit else - ((- elapsed) div unit))"

definition relative_time :: "int \<Rightarrow> string" where
  "relative_time elapsed =
     (if elapsed < 60 * 60000 then text_of_int (whole_units elapsed 60000) @ '' min ago''
      else if elapsed < 24 * 3600000
      then text_of_int (whole_units elapsed 3600000) @ '' hours ago''
      else text_of_int (whole_units elapsed 86400000) @ '' days ago'')"

subsection \<open>Concrete requests and databases\<close>

definition body0 :: body where
  "body0 = \<lparr>b_name = None, b_channels = None, b_duration = None, b_price = None,
     b_status = None, b_username = None, b_password = None, b_package_id = None,
     b_device = None, b_url = None, b_logo = None, b_category = None\<rparr>"

definition req0 :: request where
  "req0 = \<lparr>req_headers = Map.empty, req_params_id = 0, req_body = body0, req_user = None\<rparr>"

definition jwt_verify0 :: "string \<Rightarrow> jwt_error + claims" where
  "jwt_verify0 token =
     (if token = ''good'' then Inr \<lparr>jwt_id = 1, jwt_username = ''admin'', jwt_type = None\<rparr>
      else if token = ''old'' then Inl TokenExpiredError
      else Inl JsonWebTokenError)"

definition env0 :: env where
  "env0 = \<lparr>now = 1700000000123, bcrypt_hash = (\<lambda>p. ''$2b$10$'' @ p),
            fails = (\<lambda>k. False), pick = (\<lambda>k. 0)\<rparr>"

text \<open>The same, at a clock on a whole second.\<close>

definition env_on_minute :: env where
  "env_on_minute = \<lparr>now = 1700000000000, bcrypt_hash = (\<lambda>p. ''$2b$10$'' @ p),
                      fails = (\<lambda>k. False), pick = (\<lambda>k. 0)\<rparr>"

definition db_empty :: database where
  "db_empty = \<lparr>admins = [], packages = [], users = [], channels = [], transactions = [],
     seq_admins = 0, seq_packages = 0, seq_users = 0, seq_channels = 0\<rparr>"

text \<open>
  The database after the first start on an empty file, at the clock of \<open>env0\<close> and when
  the driver runs the sample inserts in the order they were issued.
\<close>

definition db_seeded :: database where
  "db_seeded =
     \<lparr>admins =
        [\<lparr>a_id = 1, a_username = ''admin'', a_password = ''$2b$10$admin123'',
          a_email = Some ''admin@iptv.com'', a_created_at = 1700000000000\<rparr>],
      packages =
        [\<lparr>p_id = 1, p_name = ''Basic Plan'', p_channels = 150, p_duration = 30,
          p_price = 15, p_status = Some ''active'', p_created_at = 1700000000000\<rparr>,
         \<lparr>p_id = 2, p_name = ''Premium Plan'', p_channels = 300, p_duration = 30,
          p_price = 30, p_status = Some ''active'', p_created_at = 1700000000000\<rparr>,
         \<lparr>p_id = 3, p_name = ''VIP Plan'', p_channels = 500, p_duration = 30,
          p_price = 50, p_status = Some ''active'', p_created_at = 1700000000000\<rparr>],
      users =
        [\<lparr>u_id = 1, u_username = ''user001'', u_password = ''$2b$10$user123'',
          u_package_id = Some 1, u_device = Some ''Android'', u_status = Some ''active'',
          u_expiry_date = Some 1702592000123, u_last_seen = Some 1700000000000,
          u_created_at = 1700000000000\<rparr>,
         \<lparr>u_id = 2, u_username = ''user002'', u_password = ''$2b$10$user123'',
          u_package_id = Some 2, u_device = Some ''iOS'', u_status = Some ''active'',
          u_expiry_date = Some 1702592000123, u_last_seen = Some 1700000000000,
          u_created_at = 1700000000000\<rparr>,
         \<lparr>u_id = 3, u_username = ''user003'', u_password = ''$2b$10$user123'',
          u_package_id = Some 3, u_device = Some ''Smart TV'', u_status = Some ''active'',
          u_expiry_date = Some 1702592000123, u_last_seen = Some 1700000000000,
          u_created_at = 1700000000000\<rparr>,
         \<lparr>u_id = 4, u_username = ''user004'', u_password = ''$2b$10$user123'',
          u_package_id = Some 1, u_device = Some ''Android'', u_status = Some ''expired'',
          u_expiry_date = Some 1699827200123, u_last_seen = Some 1700000000000,
          u_created_at = 1700000000000\<rparr>],
      channels = [], transactions = [],
      seq_admins = 1, seq_packages = 3, seq_users = 4, seq_channels = 0\<rparr>"

text \<open>A database file whose only admin is not called \<open>admin\<close>.\<close>

definition db_root :: database where
  "db_root = db_seeded\<lparr>admins :=
     [\<lparr>a_id = 1, a_username = ''root'', a_password = ''$2b$10$toor'', a_email = None,
       a_created_at = 1700000000000\<rparr>]\<rparr>"

text \<open>A subscriber who has never logged in: \<open>last_seen\<close> is NULL.\<close>

definition db_never_seen :: database where
  "db_never_seen = db_empty\<lparr>users :=
     [\<lparr>u_id = 1, u_username = ''user005'', u_password = ''$2b$10$secret'',
       u_package_id = Some 1, u_device = Some ''iOS'', u_status = Some ''active'',
       u_expiry_date = Some 1702592000123, u_last_seen = None,
       u_created_at = 1700000000000\<rparr>],
     seq_users := 1\<rparr>"

text \<open>
  The seeded subscribers, last seen 5 minutes, 3 hours and 2 days before the clock of
  \<open>env_on_minute\<close> (123 milliseconds more before that of \<open>env0\<close>), and never.
\<close>

definition db_activity :: database where
  "db_activity = db_seeded\<lparr>users :=
     map (\<lambda>u. u\<lparr>u_last_seen :=
                   (if u_id u = 1 then Some 1699999700000
                    else if u_id u = 2 then Some 1699989200000
                    else if u_id u = 3 then Some 1699827200000
                    else None)\<rparr>)
         (users db_seeded)\<rparr>"

text \<open>Request bodies: a new subscriber on package 1, and an update of a subscriber.\<close>

definition body_new_user :: body where
  "body_new_user = body0\<lparr>b_username := Some ''user005'', b_password := Some ''secret'',
     b_package_id := Some 1, b_device := Some ''iOS'', b_status := Some ''expired''\<rparr>"

definition body_update_user :: body where
  "body_update_user = body0\<lparr>b_package_id := Some 2, b_status := Some ''active'',
     b_device := Some ''Smart TV''\<rparr>"

section \<open>Properties\<close>

subsection \<open>Auxiliary facts\<close>

lemma split_space_word: "CHR '' '' \<notin> set w \<Longrightarrow> split_space w = [w]"
  by (induction w) auto

lemma split_space_append:
  "CHR '' '' \<notin> set w \<Longrightarrow> split_space (w @ CHR '' '' # rest) = w # split_space rest"
  by (induction w) auto

lemma bearer_token_Bearer:
  assumes "tok \<noteq> []" "CHR '' '' \<notin> set tok"
  shows "bearer_token (Some (''Bearer '' @ tok)) = Some tok"
proof -
  have "split_space (''Bearer'' @ CHR '' '' # tok) = ''Bearer'' # split_space tok"
    by (rule split_space_append) simp
  then have "split_space (''Bearer '' @ tok) = [''Bearer'', tok]"
    using assms(2) by (simp add: split_space_word)
  then show ?thesis
    by (simp add: bearer_token_def js_index_def)
qed

lemma split_space_takeWhile:
  "split_space h =
     takeWhile (\<lambda>c. c \<noteq> CHR '' '') h
     # (if CHR '' '' \<in> set h
        then split_space (tl (dropWhile (\<lambda>c. c \<noteq> CHR '' '') h)) else [])"
  by (induction h) auto

lemma js_index_split_space: "js_index (split_space h) 1 = second_word h"
proof (cases "CHR '' '' \<in> set h")
  case True
  define rest where "rest = tl (dropWhile (\<lambda>c. c \<noteq> CHR '' '') h)"
  have "split_space h = takeWhile (\<lambda>c. c \<noteq> CHR '' '') h # split_space rest"
    using True split_space_takeWhile [of h] by (simp add: rest_def)
  moreover obtain ws where "split_space rest = takeWhile (\<lambda>c. c \<noteq> CHR '' '') rest # ws"
    using split_space_takeWhile [of rest] by blast
  ultimately show ?thesis
    using True by (simp add: js_index_def second_word_def rest_def)
next
  case False
  then have "split_space h = [takeWhile (\<lambda>c. c \<noteq> CHR '' '') h]"
    using split_space_takeWhile [of h] by simp
  then show ?thesis
    using False by (simp add: js_index_def second_word_def)
qed

lemma bearer_token_second_word:
  "bearer_token (Some h) = (if h = [] then Some [] else second_word h)"
  using js_index_split_space [of h] by (simp add: bearer_token_def)

lemma authenticateToken_Bearer:
  "(req_headers req ''authorization'' = None \<longrightarrow>
      authenticateToken jwt_verify req =
        Responded (Response 401 (JError ''Access token required'')))
   \<and> (\<forall>tok e. req_headers req ''authorization'' = Some (''Bearer '' @ tok) \<and> tok \<noteq> []
         \<and> CHR '' '' \<notin> set tok \<and> jwt_verify tok = Inl e \<longrightarrow>
      authenticateToken jwt_verify req =
        Responded (Response 403 (JError ''Invalid or expired token'')))
   \<and> (\<forall>tok c. req_headers req ''authorization'' = Some (''Bearer '' @ tok) \<and> tok \<noteq> []
         \<and> CHR '' '' \<notin> set tok \<and> jwt_verify tok = Inr c \<longrightarrow>
      authenticateToken jwt_verify req = Next (req\<lparr>req_user := Some c\<rparr>))"
proof (intro conjI allI impI)
  assume "req_headers req ''authorization'' = None"
  then show "authenticateToken jwt_verify req =
      Responded (Response 401 (JError ''Access token required''))"
    by (simp add: authenticateToken_def bearer_token_def)
next
  fix tok e
  assume a: "req_headers req ''authorization'' = Some (''Bearer '' @ tok) \<and> tok \<noteq> []
         \<and> CHR '' '' \<notin> set tok \<and> jwt_verify tok = Inl e"
  then have "bearer_token (req_headers req ''authorization'') = Some tok"
    using bearer_token_Bearer [of tok] by presburger
  with a show "authenticateToken jwt_verify req =
      Responded (Response 403 (JError ''Invalid or expired token''))"
    by (simp add: authenticateToken_def)
next
  fix tok c
  assume a: "req_headers req ''authorization'' = Some (''Bearer '' @ tok) \<and> tok \<noteq> []
         \<and> CHR '' '' \<notin> set tok \<and> jwt_verify tok = Inr c"
  then have "bearer_token (req_headers req ''authorization'') = Some tok"
    using bearer_token_Bearer [of tok] by presburger
  with a show "authenticateToken jwt_verify req = Next (req\<lparr>req_user := Some c\<rparr>)"
    by (simp add: authenticateToken_def)
qed

lemma sql_count_foldl:
  "foldl (\<lambda>n r. if P r then n + 1 else n) k rows = k + int (length (filter P rows))"
  by (induction rows arbitrary: k) auto

lemma sql_count_filter: "sql_count P rows = int (length (filter P rows))"
  by (simp add: sql_count_def sql_count_foldl)

lemma sql_count_all_zero: "sql_count (\<lambda>_. True) rows = 0 \<longleftrightarrow> rows = []"
  by (simp add: sql_count_filter)

lemma find_admin_None:
  "find (\<lambda>a. a_username a = n) as = None \<longleftrightarrow> n \<notin> set (map a_username as)"
  by (auto simp: find_None_iff)

lemma initDatabase_empty: "initDatabase env0 db_empty = Inr db_seeded"
  by code_simp

lemma initDatabase_other_order:
  "map_sum id (map (\<lambda>p. (p_id p, p_name p)) \<circ> packages)
     (initDatabase (env0\<lparr>pick := (\<lambda>k. 2)\<rparr>) db_empty)
   = Inr [(1, ''VIP Plan''), (2, ''Basic Plan''), (3, ''Premium Plan'')]"
  by code_simp

lemma mset_run_order: "mset (run_order pk k xs) = mset xs"
proof (induction pk k xs rule: run_order.induct)
  case (1 pk k pending)
  show ?case
  proof (cases "pending = []")
    case True
    then show ?thesis
      by (simp add: run_order.simps)
  next
    case False
    define i where "i = pk k mod length pending"
    have i: "i < length pending"
      using False by (simp add: i_def)
    have "mset (run_order pk (Suc k) (take i pending @ drop (Suc i) pending))
          = mset (take i pending @ drop (Suc i) pending)"
      using 1 False by (simp add: i_def)
    moreover have "run_order pk k pending
          = pending ! i # run_order pk (Suc k) (take i pending @ drop (Suc i) pending)"
      using False by (subst run_order.simps) (simp add: i_def)
    moreover have "mset pending = mset (take i pending @ pending ! i # drop (Suc i) pending)"
      using id_take_nth_drop [OF i] by simp
    ultimately show ?thesis
      by simp
  qed
qed

text \<open>Every order of the pending statements is the order of some driver.\<close>

lemma run_order_cong:
  "(\<And>j. k \<le> j \<Longrightarrow> pk j = pk' j) \<Longrightarrow> run_order pk k xs = run_order pk' k xs"
proof (induction pk k xs rule: run_order.induct)
  case (1 pk k pending)
  show ?case
  proof (cases "pending = []")
    case True
    then show ?thesis
      by (simp add: run_order.simps)
  next
    case False
    have same: "pk k = pk' k"
      using 1(2) by simp
    have "run_order pk (Suc k)
            (take (pk k mod length pending) pending
             @ drop (Suc (pk k mod length pending)) pending)
          = run_order pk' (Suc k)
            (take (pk k mod length pending) pending
             @ drop (Suc (pk k mod length pending)) pending)"
      using False 1(2) by (intro 1(1)) simp_all
    then show ?thesis
      using False same
      by (subst run_order.simps, subst (2) run_order.simps) simp
  qed
qed

lemma run_order_any:
  "mset ys = mset xs \<Longrightarrow> \<exists>pk. run_order pk k xs = ys"
proof (induction ys arbitrary: xs k)
  case Nil
  then show ?case
    by (simp add: run_order.simps)
next
  case (Cons y ys)
  then have "y \<in> set xs"
    by (metis list.set_intros(1) mset_eq_setD)
  then obtain i where i: "i < length xs" "xs ! i = y"
    by (auto simp: in_set_conv_nth)
  define xs' where "xs' = take i xs @ drop (Suc i) xs"
  have "mset xs = mset (take i xs @ xs ! i # drop (Suc i) xs)"
    using id_take_nth_drop [OF i(1)] by simp
  then have "mset ys = mset xs'"
    using Cons.prems i(2) by (simp add: xs'_def)
  then obtain pk' where pk': "run_order pk' (Suc k) xs' = ys"
    using Cons.IH by blast
  define pk where "pk = pk'(k := i)"
  have "run_order pk (Suc k) xs' = run_order pk' (Suc k) xs'"
    by (rule run_order_cong) (simp add: pk_def)
  moreover have "xs \<noteq> []" "pk k mod length xs = i"
    using i(1) by (auto simp: pk_def)
  ultimately have "run_order pk k xs = y # ys"
    using pk' i(2) by (subst run_order.simps) (simp add: xs'_def)
  then show ?case
    by blast
qed

lemma insert_packages_rows:
  "map (\<lambda>p. (p_name p, p_channels p, p_duration p, p_price p))
     (packages (foldl (\<lambda>d (name, chans, duration, price).
                         insert_package t name chans duration price d) db xs))
   = map (\<lambda>p. (p_name p, p_channels p, p_duration p, p_price p)) (packages db) @ xs"
  by (induction xs arbitrary: db) (auto simp: insert_package_def Let_def)

lemma insert_packages_frame:
  "admins (foldl (\<lambda>d (name, chans, duration, price).
                    insert_package t name chans duration price d) db xs) = admins db
   \<and> users (foldl (\<lambda>d (name, chans, duration, price).
                    insert_package t name chans duration price d) db xs) = users db"
  by (induction xs arbitrary: db) (auto simp: insert_package_def Let_def)

lemma seed_packages_frame:
  "admins (seed_packages pk t db) = admins db \<and> users (seed_packages pk t db) = users db"
  by (simp add: seed_packages_def insert_packages_frame)

lemma seed_packages_rows:
  "mset (map (\<lambda>p. (p_name p, p_channels p, p_duration p, p_price p))
           (packages (seed_packages pk t db)))
   = mset (map (\<lambda>p. (p_name p, p_channels p, p_duration p, p_price p)) (packages db))
     + mset samplePackages"
  by (simp add: seed_packages_def insert_packages_rows mset_run_order del: mset_map)

lemma insert_users_rows:
  "map (\<lambda>u. (u_username u, u_package_id u, u_device u, u_status u))
     (users (foldl (\<lambda>d ((username, package_id, device, status), expiryDate).
                      insert_user t username hash (Some package_id) (Some device)
                        (Some status) (Some expiryDate) (Some (datetime_now t)) d) db rows))
   = map (\<lambda>u. (u_username u, u_package_id u, u_device u, u_status u)) (users db)
     @ map ((\<lambda>(n, p, d, s). (n, Some p, Some d, Some s)) \<circ> fst) rows"
  by (induction rows arbitrary: db) (auto simp: insert_user_def Let_def)

lemma insert_users_frame:
  "admins (foldl (\<lambda>d ((username, package_id, device, status), expiryDate).
                      insert_user t username hash (Some package_id) (Some device)
                        (Some status) (Some expiryDate) (Some (datetime_now t)) d) db rows)
   = admins db
   \<and> packages (foldl (\<lambda>d ((username, package_id, device, status), expiryDate).
                      insert_user t username hash (Some package_id) (Some device)
                        (Some status) (Some expiryDate) (Some (datetime_now t)) d) db rows)
     = packages db"
  by (induction rows arbitrary: db) (auto simp: insert_user_def Let_def)

lemma prepare_users_ok:
  assumes "\<bar>t + 2592000000\<bar> \<le> 8640000000000000" "\<bar>t - 172800000\<bar> \<le> 8640000000000000"
  shows "\<exists>rows. prepare_users t sampleUsers = Inr rows \<and> map fst rows = sampleUsers"
  using assms by (simp add: sampleUsers_def toISOString_def)

lemma seed_users_ok:
  assumes "\<bar>t + 2592000000\<bar> \<le> 8640000000000000" "\<bar>t - 172800000\<bar> \<le> 8640000000000000"
  shows "\<exists>db'. seed_users pk t h db = Inr db'
     \<and> admins db' = admins db \<and> packages db' = packages db
     \<and> mset (map (\<lambda>u. (u_username u, u_package_id u, u_device u, u_status u)) (users db'))
       = mset (map (\<lambda>u. (u_username u, u_package_id u, u_device u, u_status u)) (users db))
         + mset (map (\<lambda>(n, p, d, s). (n, Some p, Some d, Some s)) sampleUsers)"
proof -
  obtain rows where r: "prepare_users t sampleUsers = Inr rows" "map fst rows = sampleUsers"
    using prepare_users_ok [OF assms] by blast
  have "mset (map ((\<lambda>(n, p, d, s). (n, Some p, Some d, Some s)) \<circ> fst) (run_order pk 3 rows))
      = mset (map ((\<lambda>(n, p, d, s). (n, Some p, Some d, Some s)) \<circ> fst) rows)"
    by (simp only: mset_map mset_run_order)
  also have "\<dots> = mset (map (\<lambda>(n, p, d, s). (n, Some p, Some d, Some s)) (map fst rows))"
    by (simp only: map_map)
  finally have m: "mset (map ((\<lambda>(n, p, d, s). (n, Some p, Some d, Some s)) \<circ> fst)
        (run_order pk 3 rows))
      = mset (map (\<lambda>(n, p, d, s). (n, Some p, Some d, Some s)) sampleUsers)"
    by (simp only: r(2))
  have "mset (map (\<lambda>u. (u_username u, u_package_id u, u_device u, u_status u))
          (users (foldl (\<lambda>d ((username, package_id, device, status), expiryDate).
                      insert_user t username h (Some package_id) (Some device)
                        (Some status) (Some expiryDate) (Some (datetime_now t)) d) db
                   (run_order pk 3 rows))))
      = mset (map (\<lambda>u. (u_username u, u_package_id u, u_device u, u_status u)) (users db))
        + mset (map (\<lambda>(n, p, d, s). (n, Some p, Some d, Some s)) sampleUsers)"
    by (simp only: insert_users_rows mset_append m)
  then show ?thesis
    using r(1) by (simp add: seed_users_def insert_users_frame del: mset_map)
qed

lemma round_even_error: "\<bar>of_int (round_even y) - y\<bar> \<le> 1 / 2"
proof -
  have "of_int \<lfloor>y\<rfloor> \<le> y" "y < of_int \<lfloor>y\<rfloor> + 1"
    by linarith+
  then show ?thesis
    by (auto simp: round_even_def Let_def)
qed

lemma exponent_le:
  assumes "x \<noteq> 0"
  shows "power_int 2 (exponent x) \<le> \<bar>x\<bar>"
proof -
  obtain a b where q: "quotient_of \<bar>x\<bar> = (a, b)"
    by (cases "quotient_of \<bar>x\<bar>")
  have b: "0 < b"
    using q quotient_of_denom_pos by blast
  have x: "\<bar>x\<bar> = of_int a / of_int b"
    using q quotient_of_div by blast
  have a: "0 < a"
  proof -
    have "0 < \<bar>x\<bar>" using assms by simp
    then show ?thesis using x b by (simp add: zero_less_divide_iff)
  qed
  define c where "c = bitlen a - bitlen b"
  have la: "(2::int) ^ nat (bitlen a - 1) \<le> a"
    using bitlen_bounds [OF a] by simp
  have lb: "b < (2::int) ^ nat (bitlen b)"
    using bitlen_bounds [OF b] by simp
  have pa: "1 \<le> bitlen a"
    using a by (simp add: bitlen_alt_def)
  have pb: "0 \<le> bitlen b"
    by (rule bitlen_nonneg)
  have "power_int (2::rat) (c - 1) * of_int b \<le> power_int 2 (c - 1) * power_int 2 (bitlen b)"
  proof -
    have "(of_int b :: rat) \<le> of_int (2 ^ nat (bitlen b))"
      using lb by (simp only: of_int_le_iff)
    also have "\<dots> = power_int 2 (bitlen b)"
      using pb by (simp add: power_int_def)
    finally show ?thesis
      by (simp add: mult_left_mono)
  qed
  also have "\<dots> = power_int 2 (c - 1 + bitlen b)"
    by (rule power_int_add [symmetric]) simp
  also have "\<dots> = power_int 2 (bitlen a - 1)"
    by (simp add: c_def)
  also have "\<dots> = of_int (2 ^ nat (bitlen a - 1))"
    using pa by (simp add: power_int_def)
  also have "\<dots> \<le> of_int a"
    using la by (simp only: of_int_le_iff)
  finally have low: "power_int (2::rat) (c - 1) \<le> \<bar>x\<bar>"
    using b by (simp add: x pos_le_divide_eq)
  show ?thesis
    using low q by (simp add: exponent_def Let_def c_def)
qed

lemma ulp_pos: "0 < ulp x"
  by (simp add: ulp_def)

lemma tiny_pos: "0 < tiny"
  by (simp add: tiny_def)

lemma ulp_bound:
  assumes "x \<noteq> 0"
  shows "ulp x / 2 \<le> \<bar>x\<bar> / 2 ^ 53 + tiny"
proof (cases "- 1022 \<le> exponent x")
  case True
  then have "ulp x = power_int 2 (exponent x + (- 52))"
    by (simp add: ulp_def max_def)
  also have "\<dots> = power_int 2 (exponent x) * power_int 2 (- 52)"
    by (rule power_int_add) simp
  also have "\<dots> \<le> \<bar>x\<bar> * power_int 2 (- 52)"
    using exponent_le [OF assms] by (simp add: mult_right_mono)
  also have "power_int (2::rat) (- 52) = 2 / 2 ^ 53"
    by (simp add: power_int_minus)
  finally have "ulp x / 2 \<le> \<bar>x\<bar> / 2 ^ 53"
    by simp
  then show ?thesis
    using tiny_pos by linarith
next
  case False
  then have "ulp x = power_int 2 (- 1075 + 1)"
    by (simp add: ulp_def max_def)
  also have "\<dots> = power_int 2 (- 1075) * power_int 2 1"
    by (rule power_int_add) simp
  finally have "ulp x / 2 = tiny"
    by (simp add: tiny_def)
  then show ?thesis
    by simp
qed

lemma binary64_error: "\<bar>binary64 x - x\<bar> \<le> \<bar>x\<bar> / 2 ^ 53 + tiny"
proof (cases "x = 0")
  case True
  then show ?thesis using tiny_pos by (simp add: binary64_def)
next
  case False
  have "binary64 x - x = (of_int (round_even (x / ulp x)) - x / ulp x) * ulp x"
    using False ulp_pos [of x] by (simp add: binary64_def left_diff_distrib)
  then have "\<bar>binary64 x - x\<bar> = \<bar>of_int (round_even (x / ulp x)) - x / ulp x\<bar> * ulp x"
    using ulp_pos [of x] by (simp add: abs_mult)
  also have "\<dots> \<le> 1 / 2 * ulp x"
    using round_even_error [of "x / ulp x"] ulp_pos [of x]
    by (intro mult_right_mono) simp_all
  finally show ?thesis
    using ulp_bound [OF False] by simp
qed


lemma tiny_small: "tiny \<le> 1 / 2 ^ 80"
proof -
  have "power_int (2::rat) (- 1075) \<le> power_int 2 (- 80)"
    by (rule power_int_increasing) simp_all
  also have "power_int (2::rat) (- 80) = 1 / 2 ^ 80"
    by (simp add: power_int_minus inverse_eq_divide)
  finally show ?thesis
    by (simp add: tiny_def)
qed

lemma binary64_error_num: "\<bar>binary64 x - x\<bar> \<le> \<bar>x\<bar> / 9007199254740992 + tiny"
  using binary64_error [of x] by simp

text \<open>
  The three values the query compares and casts are within half a millisecond of the
  elapsed days, hours and minutes.
\<close>

lemma elapsed_error:
  fixes Jn Jl :: rat
  assumes n: "0 \<le> Jn" "Jn \<le> 5373485" and l: "0 \<le> Jl" "Jl \<le> 5373485"
  defines "d \<equiv> binary64 (binary64 Jn - binary64 Jl)"
  defines "h \<equiv> binary64 (d * 24)"
  defines "m \<equiv> binary64 (h * 60)"
  shows "\<bar>d - (Jn - Jl)\<bar> < 1 / 172800000"
    and "\<bar>h - 24 * (Jn - Jl)\<bar> < 1 / 7200000"
    and "\<bar>m - 1440 * (Jn - Jl)\<bar> < 1 / 120000"
proof -
  have t': "tiny \<le> 1 / 100000000000000000000"
    using tiny_small by simp
  have a1: "\<bar>binary64 Jn - Jn\<bar> \<le> 6 / 10000000000"
    using binary64_error_num [of Jn] n t' by linarith
  have a2: "\<bar>binary64 Jl - Jl\<bar> \<le> 6 / 10000000000"
    using binary64_error_num [of Jl] l t' by linarith
  define S where "S = Jn - Jl"
  define s where "s = binary64 Jn - binary64 Jl"
  have s1: "\<bar>s - S\<bar> \<le> 13 / 10000000000"
    using a1 a2 unfolding s_def S_def by linarith
  have S: "\<bar>S\<bar> \<le> 5373485"
    using n l unfolding S_def by linarith
  have s2: "\<bar>s\<bar> \<le> 5373486"
    using s1 S by linarith
  have "\<bar>d - s\<bar> \<le> \<bar>s\<bar> / 9007199254740992 + tiny"
    using binary64_error_num [of s] by (simp only: d_def s_def)
  then have d0: "\<bar>d - s\<bar> \<le> 6 / 10000000000"
    using s2 t' by linarith
  have d1: "\<bar>d - S\<bar> \<le> 20 / 10000000000"
    using d0 s1 by linarith
  define d24 where "d24 = d * 24"
  have d2: "\<bar>d24\<bar> \<le> 128963688"
    using d1 S unfolding d24_def by linarith
  have "\<bar>h - d24\<bar> \<le> \<bar>d24\<bar> / 9007199254740992 + tiny"
    using binary64_error_num [of "d * 24"] by (simp only: h_def d24_def)
  then have h0: "\<bar>h - d24\<bar> \<le> 145 / 10000000000"
    using d2 t' by linarith
  have h1: "\<bar>h - 24 * S\<bar> \<le> 650 / 10000000000"
    using h0 d1 unfolding d24_def by linarith
  define h60 where "h60 = h * 60"
  have h2: "\<bar>h60\<bar> \<le> 7737821400"
    using h1 S unfolding h60_def by linarith
  have "\<bar>m - h60\<bar> \<le> \<bar>h60\<bar> / 9007199254740992 + tiny"
    using binary64_error_num [of "h * 60"] by (simp only: m_def h60_def)
  then have m0: "\<bar>m - h60\<bar> \<le> 8700 / 10000000000"
    using h2 t' by linarith
  have m1: "\<bar>m - 1440 * S\<bar> \<le> 48000 / 10000000000"
    using m0 h1 unfolding h60_def by linarith
  show "\<bar>d - (Jn - Jl)\<bar> < 1 / 172800000"
    using d1 unfolding S_def by linarith
  show "\<bar>h - 24 * (Jn - Jl)\<bar> < 1 / 7200000"
    using h1 unfolding S_def by linarith
  show "\<bar>m - 1440 * (Jn - Jl)\<bar> < 1 / 120000"
    using m1 unfolding S_def by linarith
qed


lemma near_trunc:
  fixes x :: rat
  assumes near: "\<bar>x * of_int k - of_int e\<bar> < 1 / 2" and k: "0 < k" and r: "e mod k \<noteq> 0"
  shows "cast_integer x = whole_units e k"
proof -
  define q where "q = e div k"
  have r1: "1 \<le> e mod k" "e mod k \<le> k - 1"
    using k r pos_mod_sign [of k e] pos_mod_bound [of k e] by linarith+
  have e: "e = q * k + e mod k"
    by (simp add: q_def)
  have lo: "q * k + 1 \<le> e" and hi: "e \<le> q * k + k - 1"
    using e r1 by linarith+
  have lo': "(of_int (q * k) :: rat) + 1 \<le> of_int e"
    using lo by (metis of_int_1 of_int_add of_int_le_iff)
  have hi': "(of_int e :: rat) \<le> of_int (q * k) + of_int k - 1"
    using hi by (metis of_int_1 of_int_add of_int_diff of_int_le_iff)
  have kp: "(0::rat) < of_int k"
    using k by simp
  define y where "y = x * of_int k"
  define Q :: rat where "Q = of_int (q * k)"
  define E :: rat where "E = of_int e"
  define K :: rat where "K = of_int k"
  have n': "\<bar>y - E\<bar> < 1 / 2" "Q + 1 \<le> E" "E \<le> Q + K - 1"
    using near lo' hi' by (simp_all only: y_def Q_def E_def K_def)
  have "Q < y" "y < Q + K"
    using n' by linarith+
  then have "of_int q * of_int k < x * of_int k" "x * of_int k < (of_int q + 1) * of_int k"
    by (simp_all add: y_def Q_def K_def distrib_right)
  then have xl: "of_int q < x" and xh: "x < of_int q + 1"
    using kp by (simp_all only: mult_less_cancel_right_pos)
  have fl: "\<lfloor>x\<rfloor> = q"
    using xl xh by (intro floor_unique) simp_all
  have cl: "\<lceil>x\<rceil> = q + 1"
    using xl xh by (intro ceiling_unique) simp_all
  show ?thesis
  proof (cases "0 \<le> e")
    case True
    then have "0 \<le> q"
      using k by (simp add: q_def pos_imp_zdiv_nonneg_iff)
    then have "0 \<le> x"
      using xl by (smt (verit) of_int_0_le_iff order_less_imp_le order_trans)
    then show ?thesis
      using True fl by (simp add: cast_integer_def whole_units_def q_def)
  next
    case False
    then have "q < 0"
      using k by (simp add: q_def pos_imp_zdiv_neg_iff)
    then have "q + 1 \<le> 0" by simp
    then have "(of_int q :: rat) + 1 \<le> 0"
      by (metis of_int_0 of_int_1 of_int_add of_int_le_iff)
    then have "x < 0"
      using xh by linarith
    moreover have "(- e) div k = - q - 1"
      using k r by (simp add: zdiv_zminus1_eq_if q_def)
    ultimately show ?thesis
      using False cl by (simp add: cast_integer_def whole_units_def)
  qed
qed

lemma near_less:
  fixes x :: rat
  assumes near: "\<bar>x * of_int k - of_int e\<bar> < 1 / 2" and k: "0 < k" and ne: "e \<noteq> c * k"
  shows "x < of_int c \<longleftrightarrow> e < c * k"
proof -
  have kp: "(0::rat) < of_int k"
    using k by simp
  have iff: "x < of_int c \<longleftrightarrow> x * of_int k < of_int (c * k)"
    using kp by (simp add: mult_less_cancel_right_pos)
  show ?thesis
  proof (cases "e < c * k")
    case True
    then have "e + 1 \<le> c * k" by simp
    then have "(of_int e :: rat) + 1 \<le> of_int (c * k)"
      by (metis of_int_1 of_int_add of_int_le_iff)
    moreover define y where "y = x * of_int k"
    moreover define C :: rat where "C = of_int (c * k)"
    moreover define E :: rat where "E = of_int e"
    ultimately have "E + 1 \<le> C" "\<bar>y - E\<bar> < 1 / 2"
      using near by simp_all
    then have "y < C"
      by linarith
    then have "x * of_int k < of_int (c * k)"
      by (simp only: y_def C_def)
    then show ?thesis
      using True iff by simp
  next
    case False
    then have "c * k + 1 \<le> e" using ne by simp
    then have "(of_int (c * k) :: rat) + 1 \<le> of_int e"
      by (metis of_int_1 of_int_add of_int_le_iff)
    moreover define y where "y = x * of_int k"
    moreover define C :: rat where "C = of_int (c * k)"
    moreover define E :: rat where "E = of_int e"
    ultimately have "C + 1 \<le> E" "\<bar>y - E\<bar> < 1 / 2"
      using near by simp_all
    then have "\<not> y < C"
      by linarith
    then have "\<not> x * of_int k < of_int (c * k)"
      unfolding y_def C_def .
    then show ?thesis
      using False iff by simp
  qed
qed


lemma mod_multiple:
  fixes e :: int
  assumes "e mod k \<noteq> 0" "k dvd k'"
  shows "e mod k' \<noteq> 0"
  using assms by (auto simp: mod_eq_0_iff_dvd dest: dvd_trans)

lemma lastSeen_relative_time:
  assumes vt: "valid_date t" and vl: "valid_date l" and r: "(t - l) mod 60000 \<noteq> 0"
  shows "lastSeen t (Some l) = Some (relative_time (t - l))"
proof -
  define e where "e = t - l"
  define Jn :: rat where "Jn = of_int (t + 210866760000000) / 86400000"
  define Jl :: rat where "Jl = of_int (l + 210866760000000) / 86400000"
  define d where "d = binary64 (binary64 Jn - binary64 Jl)"
  define h where "h = binary64 (d * 24)"
  define m where "m = binary64 (h * 60)"
  have jn: "julianday t = Some (binary64 Jn)" and jl: "julianday l = Some (binary64 Jl)"
    using vt vl by (simp_all add: julianday_def Jn_def Jl_def)
  have bn: "0 \<le> Jn" "Jn \<le> 5373485"
    using vt by (simp_all add: valid_date_def Jn_def)
  have bl: "0 \<le> Jl" "Jl \<le> 5373485"
    using vl by (simp_all add: valid_date_def Jl_def)
  have S: "Jn - Jl = of_int e / 86400000"
    by (simp add: Jn_def Jl_def e_def diff_divide_distrib [symmetric])
  have err: "\<bar>d - (Jn - Jl)\<bar> < 1 / 172800000" "\<bar>h - 24 * (Jn - Jl)\<bar> < 1 / 7200000"
    "\<bar>m - 1440 * (Jn - Jl)\<bar> < 1 / 120000"
    using elapsed_error [OF bn bl] by (simp_all only: d_def h_def m_def)
  define E :: rat where "E = of_int e"
  have SE: "Jn - Jl = E / 86400000"
    by (simp add: S E_def)
  have "\<bar>d * 86400000 - E\<bar> < 1 / 2" "\<bar>h * 3600000 - E\<bar> < 1 / 2" "\<bar>m * 60000 - E\<bar> < 1 / 2"
    using err unfolding SE by linarith+
  then have near: "\<bar>d * of_int 86400000 - of_int e\<bar> < 1 / 2"
    "\<bar>h * of_int 3600000 - of_int e\<bar> < 1 / 2" "\<bar>m * of_int 60000 - of_int e\<bar> < 1 / 2"
    by (simp_all add: E_def)
  have r60: "e mod 60000 \<noteq> 0"
    using r by (simp add: e_def)
  have r3600: "e mod 3600000 \<noteq> 0"
    using r60 by (rule mod_multiple) simp
  have r86400: "e mod 86400000 \<noteq> 0"
    using r60 by (rule mod_multiple) simp
  have cm: "cast_integer m = whole_units e 60000"
    using near(3) r60 by (intro near_trunc) simp_all
  have ch: "cast_integer h = whole_units e 3600000"
    using near(2) r3600 by (intro near_trunc) simp_all
  have cd: "cast_integer d = whole_units e 86400000"
    using near(1) r86400 by (intro near_trunc) simp_all
  have "e \<noteq> 60 * 60000" "e \<noteq> 24 * 3600000"
    using r60 r3600 by fastforce+
  then have lm: "m < of_int 60 \<longleftrightarrow> e < 60 * 60000" and lh: "h < of_int 24 \<longleftrightarrow> e < 24 * 3600000"
    using near_less [OF near(3), of 60] near_less [OF near(2), of 24] by simp_all
  have "lastSeen t (Some l) =
      (if m < 60 then Some (text_of_int (cast_integer m) @ '' min ago'')
       else if h < 24 then Some (text_of_int (cast_integer h) @ '' hours ago'')
       else Some (text_of_int (cast_integer d) @ '' days ago''))"
    by (simp only: lastSeen_def option.case prod.case jn jl m_def h_def d_def)
  also have "\<dots> = Some (relative_time e)"
    using lm lh by (simp add: relative_time_def cm ch cd)
  finally show ?thesis
    by (simp add: e_def)
qed

text \<open>
  At an elapsed time of exactly 5, 60 or 1 minutes the rounded day numbers differ by a
  little less, and the truncation gives the number below.
\<close>

lemma lastSeen_exact_minutes:
  "lastSeen 1700000000000 (Some (1700000000000 - 5 * 60000)) = Some ''4 min ago''
   \<and> lastSeen 1700000000000 (Some (1700000000000 - 60 * 60000)) = Some ''59 min ago''
   \<and> lastSeen 1700000000000 (Some (1700000000000 - 60000)) = Some ''0 min ago''"
  by code_simp

lemma set_insort_desc: "set (insort_desc key x xs) = insert x (set xs)"
  by (induction xs) auto

lemma set_order_by_desc: "set (order_by_desc key xs) = set xs"
  by (induction xs) (auto simp: order_by_desc_def set_insort_desc)

lemma whole_units_truncates:
  assumes "0 \<le> e" "0 < k"
  shows "whole_units e k * k \<le> e \<and> e < (whole_units e k + 1) * k"
proof -
  have split: "e = e div k * k + e mod k"
    by simp
  have "0 \<le> e mod k" "e mod k < k"
    using assms by simp_all
  then have "e div k * k \<le> e \<and> e < e div k * k + k"
    using split by linarith
  then show ?thesis
    using assms by (simp add: whole_units_def distrib_right)
qed

lemma relative_time_examples:
  "relative_time (5 * 60000) = ''5 min ago''
   \<and> relative_time (3 * 3600000) = ''3 hours ago''
   \<and> relative_time (2 * 86400000) = ''2 days ago''
   \<and> relative_time (59 * 60000 + 59999) = ''59 min ago''
   \<and> relative_time (60 * 60000) = ''1 hours ago''
   \<and> relative_time (24 * 3600000 - 1) = ''23 hours ago''
   \<and> relative_time (24 * 3600000) = ''1 days ago''"
  by code_simp

lemma ul_user_left_join:
  "ul_user ` set (left_join_packages db u) = {u}"
  by (auto simp: left_join_packages_def split: list.splits)

lemma ul_user_joined:
  "ul_user ` set (concat (map (left_join_packages db) us)) = set us"
proof (induction us)
  case Nil
  then show ?case by simp
next
  case (Cons u us)
  then show ?case
    using ul_user_left_join [of db u] by (simp add: image_Un)
qed

lemma post_users_cases:
  "post_users env b db = (db', out) \<Longrightarrow>
     (db' = db \<and> (out = Response 500 (JError ''Server error'') \<or> out = db_error
                  \<or> out = Uncaught TypeError \<or> out = Uncaught RangeError))
     \<or> (\<exists>username password p.
           b_username b = Some username \<and> b_password b = Some password
           \<and> select_package (b_package_id b) db = Some p
           \<and> db' = insert_user (now env) username (bcrypt_hash env password) (b_package_id b)
                     (b_device b) (Some ''active'')
                     (Some (now env + js_or (p_duration p) 30 * 24 * 60 * 60 * 1000)) None db
           \<and> out = Response 200 (JCreatedUser (seq_users db') (b_username b) (b_package_id b)
                     (b_device b) ''active''))"
  by (auto simp: post_users_def Let_def toISOString_def
      split: option.splits sum.splits if_splits)

lemma post_users_seeded:
  "post_users env0 body_new_user db_seeded
   = (db_seeded\<lparr>users := users db_seeded @
         [\<lparr>u_id = 5, u_username = ''user005'', u_password = ''$2b$10$secret'',
           u_package_id = Some 1, u_device = Some ''iOS'', u_status = Some ''active'',
           u_expiry_date = Some 1702592000123, u_last_seen = None,
           u_created_at = 1700000000000\<rparr>],
        seq_users := 5\<rparr>,
      Response 200 (JCreatedUser 5 (Some ''user005'') (Some 1) (Some ''iOS'') ''active''))"
  by code_simp

lemma post_users_missing_package:
  "b_password b = Some password \<Longrightarrow> select_package (b_package_id b) db = None \<Longrightarrow>
   post_users env b db = (db, Uncaught TypeError)"
  by (simp add: post_users_def)

lemma post_users_expiry:
  assumes "post_users env b db = (db', Response 200 j)"
  shows "\<exists>p u. select_package (b_package_id b) db = Some p \<and> users db' = users db @ [u]
     \<and> u_expiry_date u
       = Some (now env + (if p_duration p = 0 then 30 else p_duration p) * 86400000)"
  using post_users_cases [OF assms]
  by (auto simp: insert_user_def Let_def js_or_def db_error_def)

lemma map_no_match: "\<forall>x\<in>set xs. \<not> P x \<Longrightarrow> map (\<lambda>x. if P x then f x else x) xs = xs"
  by (induction xs) auto

lemma put_users_id_no_row:
  assumes "\<not> fails env 0" "i \<notin> set (map u_id (users db))"
  shows "put_users_id env i b db = (db, Response 200 (JMessage ''User updated successfully''))"
proof -
  have "map (\<lambda>u. if u_id u = i
                 then u\<lparr>u_package_id := b_package_id b, u_status := b_status b,
                        u_device := b_device b\<rparr>
                 else u) (users db) = users db"
    using assms(2) by (intro map_no_match) auto
  then show ?thesis
    using assms(1) by (simp add: put_users_id_def)
qed

lemma delete_users_id_no_row:
  assumes "\<not> fails env 0" "i \<notin> set (map u_id (users db))"
  shows "delete_users_id env i db = (db, Response 200 (JMessage ''User deleted successfully''))"
proof -
  have "filter (\<lambda>u. u_id u \<noteq> i) (users db) = users db"
    using assms(2) by (auto simp: filter_id_conv)
  then show ?thesis
    using assms(1) by (simp add: delete_users_id_def)
qed

lemma delete_channels_id_no_row:
  assumes "\<not> fails env 0" "i \<notin> set (map ch_id (channels db))"
  shows "delete_channels_id env i db
         = (db, Response 200 (JMessage ''Channel deleted successfully''))"
proof -
  have "filter (\<lambda>c. ch_id c \<noteq> i) (channels db) = channels db"
    using assms(2) by (auto simp: filter_id_conv)
  then show ?thesis
    using assms(1) by (simp add: delete_channels_id_def)
qed

lemma packages_id_no_row:
  assumes "\<not> fails env 0" "i \<notin> set (map p_id (packages db))"
  shows "delete_packages_id env i db = (db, Response 404 (JError ''Package not found''))"
    and "put_packages_id env i b db = (db, Response 404 (JError ''Package not found''))"
proof -
  have "filter (\<lambda>p. p_id p = i) (packages db) = []"
    using assms(2) by (auto simp: filter_empty_conv)
  then have z: "sql_count (\<lambda>p. p_id p = i) (packages db) = 0"
    by (simp add: sql_count_filter)
  show "delete_packages_id env i db = (db, Response 404 (JError ''Package not found''))"
    using assms(1) z by (simp add: delete_packages_id_def)
  show "put_packages_id env i b db = (db, Response 404 (JError ''Package not found''))"
    using assms(1) z by (simp add: put_packages_id_def split: option.splits)
qed

lemma storage_failure_500:
  assumes "fails env 0"
  shows "get_dashboard_activity env db = (db, db_error)"
    and "get_packages env db = (db, db_error)"
    and "get_packages_id env i db = (db, db_error)"
    and "post_packages env b db = (db, db_error)"
    and "put_packages_id env i b db = (db, db_error)"
    and "delete_packages_id env i db = (db, db_error)"
    and "get_users env db = (db, db_error)"
    and "put_users_id env i b db = (db, db_error)"
    and "delete_users_id env i db = (db, db_error)"
    and "get_channels_packageId env i db = (db, db_error)"
    and "post_channels env b db = (db, db_error)"
    and "delete_channels_id env i db = (db, db_error)"
  using assms
  by (simp_all add: get_dashboard_activity_def get_packages_def get_packages_id_def
      post_packages_def put_packages_id_def delete_packages_id_def get_users_def
      put_users_id_def delete_users_id_def get_channels_packageId_def post_channels_def
      delete_channels_id_def)

lemma get_dashboard_stats_failure:
  assumes "fails env k" "k < 6"
  shows "get_dashboard_stats env db = (db, Uncaught TypeError)"
proof -
  have "k = 0 \<or> k = 1 \<or> k = 2 \<or> k = 3 \<or> k = 4 \<or> k = 5"
    using assms(2) by arith
  then have "fails env 0 \<or> fails env 1 \<or> fails env 2 \<or> fails env 3 \<or> fails env 4
      \<or> fails env 5"
    using assms(1) by blast
  then show ?thesis
    by (auto simp: get_dashboard_stats_def Let_def)
qed

lemma post_users_lookup_failure:
  "fails env 0 \<Longrightarrow> b_password b = Some password \<Longrightarrow>
   post_users env b db = (db, Uncaught TypeError)"
  by (simp add: post_users_def)

lemma get_dashboard_stats_seeded:
  "get_dashboard_stats env0 db_seeded
   = (db_seeded, Response 200 (JStats
        \<lparr>totalRevenue = 0, todayRevenue = 0, activeUsers = 3, newUsersThisWeek = 4,
         totalChannels = 0, totalPackages = 3\<rparr>))"
  by code_simp

lemma protected_rejects:
  "req_headers req ''authorization'' = None \<Longrightarrow>
   protected jwt_verify handler req db
   = (db, Response 401 (JError ''Access token required''))"
  by (simp add: protected_def authenticateToken_def bearer_token_def)

lemma get_packages_after_update:
  "map_prod id (\<lambda>out. case out of Response c (JPackages rows) \<Rightarrow> map pl_subscribers rows | _ \<Rightarrow> [])
     (get_packages env0 (fst (put_users_id env0 4 body_update_user db_seeded)))
   = (fst (put_users_id env0 4 body_update_user db_seeded), [1, 2, 1])"
  by code_simp

subsection \<open>Seeding at startup\<close>

text \<open>
  C7, as the code has it: when the three startup lookups succeed and the clock is a date
  JavaScript can format, initDatabase returns, and
  \<^item> the admin seed row is appended if and only if no admins row has the username
    \<open>admin\<close> (so also when the table is empty); otherwise the admins table is unchanged;
  \<^item> the three sample packages are inserted, in whatever order the driver runs the
    statements, if and only if the packages table is empty;
  \<^item> the four sample subscribers are inserted, in whatever order, if and only if the
    users table is empty.
\<close>

theorem initDatabase_seeds:
  assumes nofail: "\<not> fails env 0" "\<not> fails env 1" "\<not> fails env 2"
    and range: "\<bar>now env + 2592000000\<bar> \<le> 8640000000000000"
               "\<bar>now env - 172800000\<bar> \<le> 8640000000000000"
  shows "\<exists>db'. initDatabase env db = Inr db'
     \<and> (if ''admin'' \<in> set (map a_username (admins db)) then admins db' = admins db
        else \<exists>a. admins db' = admins db @ [a] \<and> a_username a = ''admin''
               \<and> a_password a = bcrypt_hash env ''admin123''
               \<and> a_email a = Some ''admin@iptv.com'')
     \<and> (if packages db = []
        then mset (map (\<lambda>p. (p_name p, p_channels p, p_duration p, p_price p)) (packages db'))
             = mset samplePackages
        else packages db' = packages db)
     \<and> (if users db = []
        then mset (map (\<lambda>u. (u_username u, u_package_id u, u_device u, u_status u))
                    (users db'))
             = mset (map (\<lambda>(n, p, d, s). (n, Some p, Some d, Some s)) sampleUsers)
        else users db' = users db)"
proof -
  define db1 where
    "db1 = (if packages db = [] then seed_packages (pick env) (now env) db else db)"
  define db2 where "db2 =
    (if ''admin'' \<in> set (map a_username (admins db)) then db1
     else insert_admin (now env) ''admin'' (bcrypt_hash env ''admin123'')
            (Some ''admin@iptv.com'') db1)"
  have init: "initDatabase env db =
      (if users db = []
       then seed_users (pick env) (now env) (bcrypt_hash env ''user123'') db2
       else Inr db2)"
    using nofail
    by (simp add: initDatabase_def Let_def sql_count_all_zero find_admin_None db1_def db2_def)
  have p1: "if packages db = []
        then mset (map (\<lambda>p. (p_name p, p_channels p, p_duration p, p_price p)) (packages db1))
             = mset samplePackages
        else packages db1 = packages db"
    using seed_packages_rows [of "pick env" "now env" db] by (simp add: db1_def del: mset_map)
  have f1: "admins db1 = admins db" "users db1 = users db"
    using seed_packages_frame [of "pick env" "now env" db] by (simp_all add: db1_def)
  have p2: "packages db2 = packages db1" "users db2 = users db1"
    by (simp_all add: db2_def insert_admin_def Let_def)
  have a2: "if ''admin'' \<in> set (map a_username (admins db)) then admins db2 = admins db
        else \<exists>a. admins db2 = admins db @ [a] \<and> a_username a = ''admin''
               \<and> a_password a = bcrypt_hash env ''admin123''
               \<and> a_email a = Some ''admin@iptv.com''"
    using f1 by (simp add: db2_def insert_admin_def Let_def)
  show ?thesis
  proof (cases "users db = []")
    case False
    then show ?thesis
      using init p1 p2 a2 f1 by (simp del: mset_map)
  next
    case True
    obtain db' where s:
      "seed_users (pick env) (now env) (bcrypt_hash env ''user123'') db2 = Inr db'"
      "admins db' = admins db2" "packages db' = packages db2"
      "mset (map (\<lambda>u. (u_username u, u_package_id u, u_device u, u_status u)) (users db'))
       = mset (map (\<lambda>u. (u_username u, u_package_id u, u_device u, u_status u)) (users db2))
         + mset (map (\<lambda>(n, p, d, s). (n, Some p, Some d, Some s)) sampleUsers)"
      using seed_users_ok [OF range] by blast
    have "users db2 = []"
      using True p2 f1 by simp
    then show ?thesis
      using True init s p1 p2 a2 f1 by (simp del: mset_map)
  qed
qed

text \<open>
  The theorem at a database whose admins table holds one row, for \<open>root\<close>, and whose
  other tables are seeded: the admin seed is appended, nothing else is inserted. And at
  an empty database, with a driver that runs the last pending statement first: the
  three sample packages are there.
\<close>

theorem initDatabase_seeds_witness:
  "(\<exists>db'. initDatabase env0 db_root = Inr db'
     \<and> (\<exists>a. admins db' = admins db_root @ [a] \<and> a_username a = ''admin''
               \<and> a_password a = ''$2b$10$admin123'' \<and> a_email a = Some ''admin@iptv.com'')
     \<and> packages db' = packages db_root \<and> users db' = users db_root)
   \<and> (\<exists>db'. initDatabase (env0\<lparr>pick := (\<lambda>k. 2)\<rparr>) db_empty = Inr db'
     \<and> mset (map (\<lambda>p. (p_name p, p_channels p, p_duration p, p_price p)) (packages db'))
       = mset samplePackages)"
proof -
  have a: "\<exists>db'. initDatabase env0 db_root = Inr db'
     \<and> (\<exists>a. admins db' = admins db_root @ [a] \<and> a_username a = ''admin''
               \<and> a_password a = ''$2b$10$admin123'' \<and> a_email a = Some ''admin@iptv.com'')
     \<and> packages db' = packages db_root \<and> users db' = users db_root"
    using initDatabase_seeds [of env0 db_root]
    by (simp add: env0_def db_root_def db_seeded_def)
  have h: "\<not> fails (env0\<lparr>pick := (\<lambda>k. 2)\<rparr>) 0" "\<not> fails (env0\<lparr>pick := (\<lambda>k. 2)\<rparr>) 1"
    "\<not> fails (env0\<lparr>pick := (\<lambda>k. 2)\<rparr>) 2"
    "\<bar>now (env0\<lparr>pick := (\<lambda>k. 2)\<rparr>) + 2592000000\<bar> \<le> 8640000000000000"
    "\<bar>now (env0\<lparr>pick := (\<lambda>k. 2)\<rparr>) - 172800000\<bar> \<le> 8640000000000000"
    by (simp_all add: env0_def)
  have e: "packages db_empty = []"
    by (simp add: db_empty_def)
  obtain db' where "initDatabase (env0\<lparr>pick := (\<lambda>k. 2)\<rparr>) db_empty = Inr db'"
    and "if packages db_empty = []
         then mset (map (\<lambda>p. (p_name p, p_channels p, p_duration p, p_price p)) (packages db'))
              = mset samplePackages
         else packages db' = packages db_empty"
    using initDatabase_seeds [OF h, of db_empty] by blast
  then have b: "\<exists>db'. initDatabase (env0\<lparr>pick := (\<lambda>k. 2)\<rparr>) db_empty = Inr db'
     \<and> mset (map (\<lambda>p. (p_name p, p_channels p, p_duration p, p_price p)) (packages db'))
       = mset samplePackages"
    using e by (simp del: mset_map)
  show ?thesis
    using a b by (rule conjI)
qed

text \<open>
  The admins table of \<open>db_root\<close> is not empty, and startup inserts the admin seed row
  all the same.
\<close>

theorem initDatabase_admin_counterexample:
  "admins db_root \<noteq> []
   \<and> map_sum id (map a_username \<circ> admins) (initDatabase env0 db_root)
     = Inr [''root'', ''admin'']"
  by code_simp

subsection \<open>The authentication guard\<close>

text \<open>
  C8, as the code has it: on a protected route the token is the second of the words of
  the Authorization header that single spaces separate, whatever the first word is. A
  request without the header, with a header of one word, or with an empty second word is
  answered 401 \<open>Access token required\<close>; a request whose token the verification rejects
  (bad signature, expired, or any other error) is answered 403
  \<open>Invalid or expired token\<close>; otherwise the decoded claims are attached to the request,
  which is passed on.
\<close>

theorem authenticateToken_total:
  "authenticateToken jwt_verify req =
     (case req_headers req ''authorization'' of
        None \<Rightarrow> Responded (Response 401 (JError ''Access token required''))
      | Some h \<Rightarrow>
          (case second_word h of
             None \<Rightarrow> Responded (Response 401 (JError ''Access token required''))
           | Some token \<Rightarrow>
               if token = [] then Responded (Response 401 (JError ''Access token required''))
               else (case jwt_verify token of
                       Inl err \<Rightarrow> Responded (Response 403 (JError ''Invalid or expired token''))
                     | Inr user \<Rightarrow> Next (req\<lparr>req_user := Some user\<rparr>))))"
proof (cases "req_headers req ''authorization''")
  case None
  then show ?thesis
    by (simp add: authenticateToken_def bearer_token_def)
next
  case (Some h)
  show ?thesis
  proof (cases "h = []")
    case True
    then show ?thesis
      using Some by (simp add: authenticateToken_def bearer_token_def second_word_def)
  next
    case False
    then show ?thesis
      using Some by (simp add: authenticateToken_def bearer_token_second_word)
  qed
qed

text \<open>
  The theorem at four requests: no header, the word \<open>Bearer\<close> alone, an expired token,
  a valid token.
\<close>

theorem authenticateToken_total_witness:
  "authenticateToken jwt_verify0 req0 =
     Responded (Response 401 (JError ''Access token required''))
   \<and> authenticateToken jwt_verify0
       (req0\<lparr>req_headers := [''authorization'' \<mapsto> ''Bearer'']\<rparr>) =
     Responded (Response 401 (JError ''Access token required''))
   \<and> authenticateToken jwt_verify0
       (req0\<lparr>req_headers := [''authorization'' \<mapsto> ''Bearer old'']\<rparr>) =
     Responded (Response 403 (JError ''Invalid or expired token''))
   \<and> authenticateToken jwt_verify0
       (req0\<lparr>req_headers := [''authorization'' \<mapsto> ''Bearer good'']\<rparr>) =
     Next (req0\<lparr>req_headers := [''authorization'' \<mapsto> ''Bearer good''],
                req_user := Some \<lparr>jwt_id = 1, jwt_username = ''admin'', jwt_type = None\<rparr>\<rparr>)"
  using authenticateToken_total [of jwt_verify0 req0]
    authenticateToken_total
      [of jwt_verify0 "req0\<lparr>req_headers := [''authorization'' \<mapsto> ''Bearer'']\<rparr>"]
    authenticateToken_total
      [of jwt_verify0 "req0\<lparr>req_headers := [''authorization'' \<mapsto> ''Bearer old'']\<rparr>"]
    authenticateToken_total
      [of jwt_verify0 "req0\<lparr>req_headers := [''authorization'' \<mapsto> ''Bearer good'']\<rparr>"]
  by (simp add: req0_def jwt_verify0_def second_word_def)

text \<open>
  A request whose header is \<open>Basic good\<close> has no Bearer header, and is passed on with
  the claims of the token; with \<open>Basic old\<close> it is answered 403, not 401.
\<close>

theorem authenticateToken_scheme_counterexample:
  "authenticateToken jwt_verify0
       (req0\<lparr>req_headers := [''authorization'' \<mapsto> ''Basic good'']\<rparr>) =
     Next (req0\<lparr>req_headers := [''authorization'' \<mapsto> ''Basic good''],
                req_user := Some \<lparr>jwt_id = 1, jwt_username = ''admin'', jwt_type = None\<rparr>\<rparr>)
   \<and> authenticateToken jwt_verify0
       (req0\<lparr>req_headers := [''authorization'' \<mapsto> ''Basic old'']\<rparr>) =
     Responded (Response 403 (JError ''Invalid or expired token''))"
  by (simp add: authenticateToken_def bearer_token_def js_index_def req0_def jwt_verify0_def)

subsection \<open>The packages list\<close>

text \<open>
  C4: when the query succeeds, the packages list has one row per packages row, in table
  order, and the \<open>subscribers\<close> field of each row is the number of users rows whose
  \<open>package_id\<close> is that package's id and whose status is \<open>active\<close>. The handler reads
  the database it is given and keeps nothing between requests.
\<close>

theorem get_packages_subscribers:
  assumes "\<not> fails env 0"
  shows "\<exists>rows. get_packages env db = (db, Response 200 (JPackages rows))
     \<and> map pl_package rows = packages db
     \<and> (\<forall>r\<in>set rows. pl_subscribers r =
          int (card {k. k < length (users db)
                 \<and> u_package_id (users db ! k) = Some (p_id (pl_package r))
                 \<and> u_status (users db ! k) = Some ''active''}))"
  using assms
  by (auto simp: get_packages_def subscribers_def sql_count_filter length_filter_conv_card
      comp_def)

text \<open>The theorem at the seeded database.\<close>

theorem get_packages_subscribers_witness:
  "\<not> fails env0 0 \<and> (\<exists>rows. get_packages env0 db_seeded = (db_seeded, Response 200 (JPackages rows))
     \<and> map pl_package rows = packages db_seeded
     \<and> (\<forall>r\<in>set rows. pl_subscribers r =
          int (card {k. k < length (users db_seeded)
                 \<and> u_package_id (users db_seeded ! k) = Some (p_id (pl_package r))
                 \<and> u_status (users db_seeded ! k) = Some ''active''})))"
proof -
  have h: "\<not> fails env0 0"
    by (simp add: env0_def)
  show ?thesis
    using h get_packages_subscribers [OF h, of db_seeded] by simp
qed

text \<open>
  On the seeded database each package has one active subscriber: \<open>user004\<close> is on
  package 1 too, but expired.
\<close>

lemma get_packages_seeded:
  "map_prod id (\<lambda>out. case out of Response c (JPackages rows) \<Rightarrow> map pl_subscribers rows | _ \<Rightarrow> [])
     (get_packages env0 db_seeded) = (db_seeded, [1, 1, 1])"
  by code_simp

subsection \<open>The activity list\<close>

text \<open>
  C5, as the code has it: when the query succeeds, every row of the activity list is the
  row of a subscriber. For a subscriber whose \<open>last_seen\<close> is set (both dates in the
  years SQLite accepts) and whose elapsed time is not a whole number of minutes, its
  \<open>lastSeen\<close> is the relative time of the elapsed time by truncation, in three buckets:
  whole minutes and \<open>min ago\<close> under 60 minutes, whole hours and \<open>hours ago\<close> under
  24 hours, whole days and \<open>days ago\<close> otherwise. For a subscriber whose \<open>last_seen\<close> is
  NULL, \<open>lastSeen\<close> is NULL. (At a whole number of minutes the rounded arithmetic of the
  query decides; see \<open>lastSeen_exact_minutes\<close>.)
\<close>

theorem get_dashboard_activity_lastSeen:
  assumes "\<not> fails env 0" "valid_date (now env)"
  shows "\<exists>rows. get_dashboard_activity env db = (db, Response 200 (JActivity rows))
     \<and> (\<forall>r\<in>set rows. \<exists>u\<in>set (users db).
          act_id r = u_id u \<and> act_username r = u_username u \<and> act_device r = u_device u
          \<and> act_status r = u_status u
          \<and> (case u_last_seen u of
                None \<Rightarrow> act_lastSeen r = None
              | Some l \<Rightarrow>
                  valid_date l \<and> (now env - l) mod 60000 \<noteq> 0 \<longrightarrow>
                  act_lastSeen r = Some (relative_time (now env - l))))"
proof -
  let ?top = "take 10 (order_by_desc u_last_seen (users db))"
  have sub: "set ?top \<subseteq> set (users db)"
    using set_take_subset [of 10 "order_by_desc u_last_seen (users db)"]
    by (simp add: set_order_by_desc)
  have row: "case u_last_seen u of
                None \<Rightarrow> act_lastSeen (activity_select (now env) u) = None
              | Some l \<Rightarrow>
                  valid_date l \<and> (now env - l) mod 60000 \<noteq> 0 \<longrightarrow>
                  act_lastSeen (activity_select (now env) u)
                  = Some (relative_time (now env - l))" for u
  proof (cases "u_last_seen u")
    case None
    then show ?thesis
      by (simp add: activity_select_def lastSeen_def)
  next
    case (Some l)
    then show ?thesis
      using lastSeen_relative_time [OF assms(2), of l] by (simp add: activity_select_def)
  qed
  have "\<forall>r\<in>set (map (activity_select (now env)) ?top). \<exists>u\<in>set (users db).
          act_id r = u_id u \<and> act_username r = u_username u \<and> act_device r = u_device u
          \<and> act_status r = u_status u
          \<and> (case u_last_seen u of
                None \<Rightarrow> act_lastSeen r = None
              | Some l \<Rightarrow>
                  valid_date l \<and> (now env - l) mod 60000 \<noteq> 0 \<longrightarrow>
                  act_lastSeen r = Some (relative_time (now env - l)))"
  proof
    fix r
    assume "r \<in> set (map (activity_select (now env)) ?top)"
    then obtain u where u: "u \<in> set ?top" "r = activity_select (now env) u"
      by auto
    have "u \<in> set (users db)"
      using u(1) sub by blast
    moreover have "act_id r = u_id u \<and> act_username r = u_username u
        \<and> act_device r = u_device u \<and> act_status r = u_status u"
      by (simp add: u(2) activity_select_def)
    ultimately show "\<exists>u\<in>set (users db).
          act_id r = u_id u \<and> act_username r = u_username u \<and> act_device r = u_device u
          \<and> act_status r = u_status u
          \<and> (case u_last_seen u of
                None \<Rightarrow> act_lastSeen r = None
              | Some l \<Rightarrow>
                  valid_date l \<and> (now env - l) mod 60000 \<noteq> 0 \<longrightarrow>
                  act_lastSeen r = Some (relative_time (now env - l)))"
      using row [of u] u(2) by blast
  qed
  then show ?thesis
    using assms(1) by (simp add: get_dashboard_activity_def)
qed

text \<open>
  The theorem at the database with subscribers seen 5 minutes, 3 hours and 2 days before
  the clock of \<open>env0\<close> (and 123 milliseconds), and one never seen.
\<close>

theorem get_dashboard_activity_lastSeen_witness:
  "\<not> fails env0 0 \<and> valid_date (now env0)
   \<and> (\<exists>u\<in>set (users db_activity). \<exists>l. u_last_seen u = Some l \<and> valid_date l
         \<and> (now env0 - l) mod 60000 \<noteq> 0)
   \<and> (\<exists>rows. get_dashboard_activity env0 db_activity
               = (db_activity, Response 200 (JActivity rows))
     \<and> (\<forall>r\<in>set rows. \<exists>u\<in>set (users db_activity).
          act_id r = u_id u \<and> act_username r = u_username u \<and> act_device r = u_device u
          \<and> act_status r = u_status u
          \<and> (case u_last_seen u of
                None \<Rightarrow> act_lastSeen r = None
              | Some l \<Rightarrow>
                  valid_date l \<and> (now env0 - l) mod 60000 \<noteq> 0 \<longrightarrow>
                  act_lastSeen r = Some (relative_time (now env0 - l)))))"
proof -
  have h: "\<not> fails env0 0" "valid_date (now env0)"
    by (simp_all add: env0_def valid_date_def)
  have u: "\<exists>u\<in>set (users db_activity). \<exists>l. u_last_seen u = Some l \<and> valid_date l
         \<and> (now env0 - l) mod 60000 \<noteq> 0"
    by (simp add: db_activity_def db_seeded_def env0_def valid_date_def)
  show ?thesis
    using h u get_dashboard_activity_lastSeen [OF h, of db_activity] by simp
qed

text \<open>The rows of that list: the three examples of the specification, and a NULL.\<close>

lemma get_dashboard_activity_example:
  "map_prod id (\<lambda>out. case out of Response c (JActivity rows) \<Rightarrow>
        map (\<lambda>r. (act_username r, act_lastSeen r)) rows | _ \<Rightarrow> [])
     (get_dashboard_activity env0 db_activity)
   = (db_activity,
      [(''user001'', Some ''5 min ago''), (''user002'', Some ''3 hours ago''),
       (''user003'', Some ''2 days ago''), (''user004'', None)])"
  by code_simp

text \<open>
  A subscriber who has never logged in is listed, and its \<open>lastSeen\<close> is NULL: none of
  the three strings. And at a clock exactly 5 minutes, 3 hours and 2 days after the
  subscribers were seen, the first of them is listed with \<open>4 min ago\<close>.
\<close>

theorem get_dashboard_activity_counterexample:
  "get_dashboard_activity env0 db_never_seen
   = (db_never_seen, Response 200 (JActivity
        [\<lparr>act_id = 1, act_username = ''user005'', act_device = Some ''iOS'',
          act_status = Some ''active'', act_lastSeen = None\<rparr>]))
   \<and> get_dashboard_activity env_on_minute db_activity
     = (db_activity, Response 200 (JActivity
        [\<lparr>act_id = 1, act_username = ''user001'', act_device = Some ''Android'',
          act_status = Some ''active'', act_lastSeen = Some ''4 min ago''\<rparr>,
         \<lparr>act_id = 2, act_username = ''user002'', act_device = Some ''iOS'',
          act_status = Some ''active'', act_lastSeen = Some ''3 hours ago''\<rparr>,
         \<lparr>act_id = 3, act_username = ''user003'', act_device = Some ''Smart TV'',
          act_status = Some ''active'', act_lastSeen = Some ''2 days ago''\<rparr>,
         \<lparr>act_id = 4, act_username = ''user004'', act_device = Some ''Android'',
          act_status = Some ''expired'', act_lastSeen = None\<rparr>]))"
  by code_simp

subsection \<open>The users list\<close>

text \<open>
  C9: when the query succeeds, every row of the users list is a whole users row, with its
  stored password hash, next to the package name; and every users row is listed.
\<close>

theorem get_users_exposes_password:
  assumes "\<not> fails env 0"
  shows "\<exists>rows. get_users env db = (db, Response 200 (JUsers rows))
     \<and> (\<forall>r\<in>set rows. \<exists>u\<in>set (users db).
          ul_user r = u \<and> u_password (ul_user r) = u_password u)
     \<and> (\<forall>u\<in>set (users db). \<exists>r\<in>set rows. u_password (ul_user r) = u_password u \<and> ul_user r = u)"
proof -
  let ?rows = "order_by_desc (\<lambda>r. u_created_at (ul_user r))
                 (concat (map (left_join_packages db) (users db)))"
  have out: "get_users env db = (db, Response 200 (JUsers ?rows))"
    using assms by (simp add: get_users_def)
  have img: "ul_user ` set ?rows = set (users db)"
    by (simp only: set_order_by_desc ul_user_joined)
  have "\<forall>r\<in>set ?rows. ul_user r \<in> set (users db)"
    using img by blast
  moreover have "\<forall>u\<in>set (users db). \<exists>r\<in>set ?rows. ul_user r = u"
    using img by (metis (no_types, lifting) imageE)
  ultimately show ?thesis
    using out by auto
qed

text \<open>The theorem at the seeded database.\<close>

theorem get_users_exposes_password_witness:
  "\<not> fails env0 0
   \<and> (\<exists>rows. get_users env0 db_seeded = (db_seeded, Response 200 (JUsers rows))
     \<and> (\<forall>r\<in>set rows. \<exists>u\<in>set (users db_seeded).
          ul_user r = u \<and> u_password (ul_user r) = u_password u)
     \<and> (\<forall>u\<in>set (users db_seeded). \<exists>r\<in>set rows.
          u_password (ul_user r) = u_password u \<and> ul_user r = u))"
proof -
  have h: "\<not> fails env0 0"
    by (simp add: env0_def)
  show ?thesis
    using h get_users_exposes_password [OF h, of db_seeded] by simp
qed

text \<open>The list of the seeded database carries the hash of each subscriber.\<close>

lemma get_users_seeded:
  "map_prod id (\<lambda>out. case out of Response c (JUsers rows) \<Rightarrow>
        map (\<lambda>r. (u_username (ul_user r), u_password (ul_user r), ul_package_name r)) rows
      | _ \<Rightarrow> [])
     (get_users env0 db_seeded)
   = (db_seeded,
      [(''user001'', ''$2b$10$user123'', Some ''Basic Plan''),
       (''user002'', ''$2b$10$user123'', Some ''Premium Plan''),
       (''user003'', ''$2b$10$user123'', Some ''VIP Plan''),
       (''user004'', ''$2b$10$user123'', Some ''Basic Plan'')])"
  by code_simp

subsection \<open>Updating a subscriber\<close>

text \<open>
  C10: an update of subscriber \<open>i\<close> leaves the admins, packages, channels and
  transactions tables and the rowid counters as they were, keeps the number and order of
  the users rows, and leaves every users row with another id as it was. In a row with id
  \<open>i\<close> the id, username, password, expiry_date, last_seen and created_at are unchanged;
  when the statement succeeds its package_id, status and device are those of the request.
\<close>

theorem put_users_id_frame:
  "\<exists>db' out. put_users_id env i b db = (db', out)
     \<and> admins db' = admins db \<and> packages db' = packages db \<and> channels db' = channels db
     \<and> transactions db' = transactions db
     \<and> seq_admins db' = seq_admins db \<and> seq_packages db' = seq_packages db
     \<and> seq_users db' = seq_users db \<and> seq_channels db' = seq_channels db
     \<and> length (users db') = length (users db)
     \<and> (\<forall>k<length (users db).
          (u_id (users db ! k) \<noteq> i \<longrightarrow> users db' ! k = users db ! k)
          \<and> (u_id (users db ! k) = i \<longrightarrow>
               u_id (users db' ! k) = i
               \<and> u_username (users db' ! k) = u_username (users db ! k)
               \<and> u_password (users db' ! k) = u_password (users db ! k)
               \<and> u_expiry_date (users db' ! k) = u_expiry_date (users db ! k)
               \<and> u_last_seen (users db' ! k) = u_last_seen (users db ! k)
               \<and> u_created_at (users db' ! k) = u_created_at (users db ! k)
               \<and> (\<not> fails env 0 \<longrightarrow>
                    u_package_id (users db' ! k) = b_package_id b
                    \<and> u_status (users db' ! k) = b_status b
                    \<and> u_device (users db' ! k) = b_device b)))"
  by (simp add: put_users_id_def)

text \<open>
  The theorem at an update of \<open>user004\<close> (row 3 of the seeded table): row 0 is untouched,
  row 3 keeps its name and hash and takes the three new values.
\<close>

theorem put_users_id_frame_witness:
  "3 < length (users db_seeded) \<and> u_id (users db_seeded ! 3) = 4
   \<and> u_id (users db_seeded ! 0) \<noteq> 4 \<and> \<not> fails env0 0
   \<and> (\<exists>db' out. put_users_id env0 4 body_update_user db_seeded = (db', out)
        \<and> packages db' = packages db_seeded
        \<and> users db' ! 0 = users db_seeded ! 0
        \<and> u_username (users db' ! 3) = ''user004''
        \<and> u_password (users db' ! 3) = ''$2b$10$user123''
        \<and> u_package_id (users db' ! 3) = Some 2
        \<and> u_status (users db' ! 3) = Some ''active''
        \<and> u_device (users db' ! 3) = Some ''Smart TV'')"
proof -
  have h: "3 < length (users db_seeded)" "u_id (users db_seeded ! 3) = 4"
    "u_id (users db_seeded ! 0) \<noteq> 4" "\<not> fails env0 0" "0 < length (users db_seeded)"
    by (simp_all add: db_seeded_def env0_def)
  have old: "u_username (users db_seeded ! 3) = ''user004''"
    "u_password (users db_seeded ! 3) = ''$2b$10$user123''"
    by (simp_all add: db_seeded_def)
  have new: "b_package_id body_update_user = Some 2"
    "b_status body_update_user = Some ''active''"
    "b_device body_update_user = Some ''Smart TV''"
    by (simp_all add: body_update_user_def body0_def)
  show ?thesis
    using h old new put_users_id_frame [of env0 4 body_update_user db_seeded]
    by (metis (no_types, lifting))
qed

text \<open>The whole result of that update.\<close>

lemma put_users_id_seeded:
  "put_users_id env0 4 body_update_user db_seeded
   = (db_seeded\<lparr>users := (users db_seeded)
        [3 := (users db_seeded ! 3)\<lparr>u_package_id := Some 2, u_status := Some ''active'',
                                     u_device := Some ''Smart TV''\<rparr>]\<rparr>,
      Response 200 (JMessage ''User updated successfully''))"
  by code_simp

subsection \<open>Creating a subscriber\<close>

text \<open>
  C6: the outcome of a create-user request does not depend on the \<open>status\<close> field of the
  request body, and a request either leaves the users table as it was or appends one
  row, for the requested username, whose status is \<open>active\<close>.
\<close>

theorem post_users_status_active:
  "post_users env (b\<lparr>b_status := s\<rparr>) db = post_users env b db
   \<and> (\<forall>db' out. post_users env b db = (db', out) \<longrightarrow>
         users db' = users db
         \<or> (\<exists>u. users db' = users db @ [u] \<and> Some (u_username u) = b_username b
                \<and> u_status u = Some ''active''))"
proof
  show "post_users env (b\<lparr>b_status := s\<rparr>) db = post_users env b db"
    by (simp add: post_users_def Let_def split: option.splits sum.splits)
next
  show "\<forall>db' out. post_users env b db = (db', out) \<longrightarrow>
         users db' = users db
         \<or> (\<exists>u. users db' = users db @ [u] \<and> Some (u_username u) = b_username b
                \<and> u_status u = Some ''active'')"
  proof (intro allI impI)
    fix db' out
    assume "post_users env b db = (db', out)"
    from post_users_cases [OF this] show "users db' = users db
         \<or> (\<exists>u. users db' = users db @ [u] \<and> Some (u_username u) = b_username b
                \<and> u_status u = Some ''active'')"
      by (auto simp: insert_user_def Let_def)
  qed
qed

text \<open>
  The theorem at a request that asks for the status \<open>expired\<close>, on the seeded database:
  the subscriber is created, and active.
\<close>

theorem post_users_status_active_witness:
  "b_status body_new_user = Some ''expired''
   \<and> post_users env0 (body_new_user\<lparr>b_status := Some ''suspended''\<rparr>) db_seeded
     = post_users env0 body_new_user db_seeded
   \<and> (\<exists>db' out u. post_users env0 body_new_user db_seeded = (db', out)
        \<and> users db' = users db_seeded @ [u] \<and> u_username u = ''user005''
        \<and> u_status u = Some ''active'')"
proof -
  have b: "b_status body_new_user = Some ''expired''"
    "b_username body_new_user = Some ''user005''"
    by (simp_all add: body_new_user_def body0_def)
  obtain db' out where r: "post_users env0 body_new_user db_seeded = (db', out)"
    and n: "users db' \<noteq> users db_seeded"
    using post_users_seeded by (simp add: db_seeded_def)
  from post_users_status_active
    [where env = env0 and b = body_new_user and s = "Some ''suspended''" and db = db_seeded] r n b
  show ?thesis
    by (metis (no_types, lifting) option.inject)
qed

subsection \<open>Where the handlers leave the documented behaviour\<close>

text \<open>
  C1: on the seeded database no subscriber, channel or package has the id 99. Updating
  or deleting subscriber 99 and deleting channel 99 are acknowledged with status 200;
  the packages routes answer 404 to the same requests.
\<close>

theorem no_row_acknowledged:
  "put_users_id env0 99 body_update_user db_seeded
     = (db_seeded, Response 200 (JMessage ''User updated successfully''))
   \<and> delete_users_id env0 99 db_seeded
     = (db_seeded, Response 200 (JMessage ''User deleted successfully''))
   \<and> delete_channels_id env0 99 db_seeded
     = (db_seeded, Response 200 (JMessage ''Channel deleted successfully''))
   \<and> put_packages_id env0 99 body0 db_seeded
     = (db_seeded, Response 404 (JError ''Package not found''))
   \<and> delete_packages_id env0 99 db_seeded
     = (db_seeded, Response 404 (JError ''Package not found''))"
  by code_simp

text \<open>
  C2: when any one of the six lookups of the dashboard statistics fails, no response is
  written: the callback reads a property of the missing row and a TypeError escapes. The
  same holds for the package lookup of a create-user request.
\<close>

theorem storage_failure_uncaught:
  "get_dashboard_stats (env0\<lparr>fails := (\<lambda>k. k = 0)\<rparr>) db_seeded = (db_seeded, Uncaught TypeError)
   \<and> get_dashboard_stats (env0\<lparr>fails := (\<lambda>k. k = 1)\<rparr>) db_seeded
     = (db_seeded, Uncaught TypeError)
   \<and> get_dashboard_stats (env0\<lparr>fails := (\<lambda>k. k = 2)\<rparr>) db_seeded
     = (db_seeded, Uncaught TypeError)
   \<and> get_dashboard_stats (env0\<lparr>fails := (\<lambda>k. k = 3)\<rparr>) db_seeded
     = (db_seeded, Uncaught TypeError)
   \<and> get_dashboard_stats (env0\<lparr>fails := (\<lambda>k. k = 4)\<rparr>) db_seeded
     = (db_seeded, Uncaught TypeError)
   \<and> get_dashboard_stats (env0\<lparr>fails := (\<lambda>k. k = 5)\<rparr>) db_seeded
     = (db_seeded, Uncaught TypeError)
   \<and> post_users (env0\<lparr>fails := (\<lambda>k. k = 0)\<rparr>) body_new_user db_seeded
     = (db_seeded, Uncaught TypeError)"
  by code_simp

text \<open>
  C3: a create-user request for a package id that no package has, or without a package
  id, creates no subscriber: the callback reads \<open>pkg.duration\<close> of the missing row and a
  TypeError escapes.
\<close>

theorem post_users_unknown_package_throws:
  "post_users env0 (body_new_user\<lparr>b_package_id := Some 99\<rparr>) db_seeded
     = (db_seeded, Uncaught TypeError)
   \<and> post_users env0 (body_new_user\<lparr>b_package_id := None\<rparr>) db_seeded
     = (db_seeded, Uncaught TypeError)"
  by code_simp

end
